theory Spec2Isabelle
  imports Main
begin

section \<open>Strings of the handler\<close>

text \<open>
  A JavaScript string is a sequence of UTF-16 code units. The model writes it as a
  \<^typ>\<open>string\<close> whose characters stand for the code units U+0000 to U+00FF
  (Latin-1); every string literal of \<^verbatim>\<open>Index.js\<close> is ASCII. Code units
  beyond U+00FF are outside the model.
\<close>

definition code_unit :: "char \<Rightarrow> nat" where
  "code_unit c = of_char c"

text \<open>\<^verbatim>\<open>String.prototype.trim\<close>: the white space and line terminators below U+0100.\<close>

definition is_ws :: "char \<Rightarrow> bool" where
  "is_ws c = (code_unit c \<in> {9, 10, 11, 12, 13, 32, 160})"

definition trim :: "string \<Rightarrow> string" where
  "trim s = rev (dropWhile is_ws (rev (dropWhile is_ws s)))"

text \<open>\<^verbatim>\<open>String.prototype.toLowerCase\<close> on Latin-1: A-Z and the accented capitals
  U+00C0 to U+00DE, the multiplication sign U+00D7 apart, move up by 32.\<close>

definition lower_char :: "char \<Rightarrow> char" where
  "lower_char c =
     (let n = code_unit c in
      if (65 \<le> n \<and> n \<le> 90) \<or> (192 \<le> n \<and> n \<le> 222 \<and> n \<noteq> 215)
      then char_of (n + 32) else c)"

definition toLowerCase :: "string \<Rightarrow> string" where
  "toLowerCase s = map lower_char s"

text \<open>\<^verbatim>\<open>s.split(' ')\<close>: the pieces between single spaces; the empty string gives one
  empty piece.\<close>

fun split_sp :: "string \<Rightarrow> string list" where
  "split_sp [] = [[]]"
| "split_sp (c # cs) =
     (if c = CHR '' '' then [] # split_sp cs
      else (case split_sp cs of
              [] \<Rightarrow> [[c]]
            | w # ws \<Rightarrow> (c # w) # ws))"

text \<open>\<^verbatim>\<open>xs.join(sep)\<close> on an array of strings.\<close>

fun join :: "string \<Rightarrow> string list \<Rightarrow> string" where
  "join sep [] = []"
| "join sep [x] = x"
| "join sep (x # y # ys) = x @ sep @ join sep (y # ys)"

text \<open>\<^verbatim>\<open>xs.slice(n)\<close> is \<^term>\<open>drop n xs\<close>; \<^verbatim>\<open>s.slice(0, n)\<close> is \<^term>\<open>take n s\<close>.
  \<^verbatim>\<open>s.replace(/\/$/, '')\<close> removes one trailing slash.\<close>

definition strip_slash :: "string \<Rightarrow> string" where
  "strip_slash s = (if s \<noteq> [] \<and> last s = CHR ''/'' then butlast s else s)"

subsection \<open>Decimal rendering of integers\<close>

text \<open>
  JavaScript prints an integer of magnitude below 10^21 with all its digits. The
  rendering below is used for such integers only: a Telegram user id (below 2^52), the
  length of an array or of a string, and a time-to-live of that size.
\<close>

definition digit_char :: "nat \<Rightarrow> char" where
  "digit_char d = char_of (48 + d)"

fun show_nat :: "nat \<Rightarrow> string" where
  "show_nat n = (if n < 10 then [digit_char n] else show_nat (n div 10) @ [digit_char (n mod 10)])"

definition show_int :: "int \<Rightarrow> string" where
  "show_int i = (if i < 0 then CHR ''-'' # show_nat (nat (- i)) else show_nat (nat i))"

declare show_nat.simps [simp del]

section \<open>JavaScript values\<close>

text \<open>
  A number is known by what the code can observe of it: whether it is falsy (\<open>0\<close>,
  \<open>-0\<close>, \<open>NaN\<close>), what \<^verbatim>\<open>String\<close> prints for it, and whether it is finite
  (\<^verbatim>\<open>JSON.parse\<close> reads \<open>1e999\<close> as \<open>Infinity\<close>, which \<^verbatim>\<open>JSON.stringify\<close> prints as
  \<open>null\<close>; a finite number is printed by both alike). So integers of any size and
  fractions are covered.
\<close>

datatype jsnum = Num (is_falsy: bool) (printed: string) (is_finite: bool)

text \<open>The number that is the length of an array or of a string.\<close>

definition num_of_nat :: "nat \<Rightarrow> jsnum" where
  "num_of_nat n = Num (n = 0) (show_nat n) True"

text \<open>
  A response payload is a JSON value. The fields of an object have distinct names and
  are listed in the engine's own enumeration order.
\<close>

datatype json =
    JNull
  | JBool bool
  | JNum jsnum
  | JStr string
  | JArr "json list"
  | JObj "(string \<times> json) list"

text \<open>
  A value that may be \<^verbatim>\<open>undefined\<close> is a \<^typ>\<open>json option\<close> (\<^const>\<open>None\<close> is
  \<^verbatim>\<open>undefined\<close>). What is thrown: \<^verbatim>\<open>Error\<close> (also the HTTP client's errors) and
  \<^verbatim>\<open>TypeError\<close>, each with its message.
\<close>

datatype exn = Error string | TypeError string

fun message :: "exn \<Rightarrow> string" where
  "message (Error m) = m"
| "message (TypeError m) = m"

datatype 'a outcome = Throws exn | Returns 'a

definition bind :: "'a outcome \<Rightarrow> ('a \<Rightarrow> 'b outcome) \<Rightarrow> 'b outcome" where
  "bind m f = (case m of Throws e \<Rightarrow> Throws e | Returns x \<Rightarrow> f x)"

fun truthy_json :: "json \<Rightarrow> bool" where
  "truthy_json JNull = False"
| "truthy_json (JBool b) = b"
| "truthy_json (JNum n) = (\<not> is_falsy n)"
| "truthy_json (JStr s) = (s \<noteq> [])"
| "truthy_json (JArr xs) = True"
| "truthy_json (JObj kvs) = True"

fun truthy :: "json option \<Rightarrow> bool" where
  "truthy None = False"
| "truthy (Some v) = truthy_json v"

text \<open>The value of an expression that was just tested truthy: \<^verbatim>\<open>if (x) return x\<close>.\<close>

definition truthy_val :: "json option \<Rightarrow> json option" where
  "truthy_val v = (if truthy v then v else None)"

text \<open>
  \<^verbatim>\<open>String(v)\<close> and a template literal's conversion. An array joins its elements with
  commas, \<^verbatim>\<open>null\<close> elements as empty strings. An object parsed from JSON converts to
  \<^verbatim>\<open>[object Object]\<close> unless it has an own field \<^verbatim>\<open>toString\<close>, which is never callable:
  then the conversion throws a TypeError (\<^const>\<open>None\<close>).
\<close>

fun str_json :: "json \<Rightarrow> string option"
and str_elems :: "json list \<Rightarrow> string option" where
  "str_json JNull = Some ''null''"
| "str_json (JBool b) = Some (if b then ''true'' else ''false'')"
| "str_json (JNum n) = Some (printed n)"
| "str_json (JStr s) = Some s"
| "str_json (JArr xs) = str_elems xs"
| "str_json (JObj kvs) =
     (if ''toString'' \<in> fst ` set kvs then None else Some ''[object Object]'')"
| "str_elems [] = Some []"
| "str_elems (x # xs) =
     (case (if x = JNull then Some [] else str_json x) of
        None \<Rightarrow> None
      | Some s \<Rightarrow>
          (if xs = [] then Some s
           else (case str_elems xs of None \<Rightarrow> None | Some r \<Rightarrow> Some (s @ '','' @ r))))"

definition cannot_convert :: exn where
  "cannot_convert = TypeError ''Cannot convert object to primitive value''"

fun js_String :: "json option \<Rightarrow> string outcome" where
  "js_String None = Returns ''undefined''"
| "js_String (Some v) = (case str_json v of None \<Rightarrow> Throws cannot_convert | Some s \<Rightarrow> Returns s)"

text \<open>
  Property access \<^verbatim>\<open>v.name\<close> for the names the source reads (\<^verbatim>\<open>data\<close>,
  \<^verbatim>\<open>generated_text\<close>, \<^verbatim>\<open>output\<close>, \<^verbatim>\<open>status\<close>, \<^verbatim>\<open>extract\<close>, \<^verbatim>\<open>AbstractText\<close>,
  \<^verbatim>\<open>RelatedTopics\<close>, \<^verbatim>\<open>Text\<close>, \<^verbatim>\<open>length\<close>): none but \<^verbatim>\<open>length\<close> is inherited.
  On \<^verbatim>\<open>null\<close> and \<^verbatim>\<open>undefined\<close> the access throws, with the engine's message.
\<close>

definition cannot_read :: "string \<Rightarrow> string \<Rightarrow> exn" where
  "cannot_read base name =
     TypeError (''Cannot read properties of '' @ base @ '' (reading '' @ [CHR 0x27] @ name @ [CHR 0x27] @ '')'')"

fun own_prop :: "json \<Rightarrow> string \<Rightarrow> json option" where
  "own_prop (JObj kvs) name = map_of kvs name"
| "own_prop (JArr xs) name = (if name = ''length'' then Some (JNum (num_of_nat (length xs))) else None)"
| "own_prop (JStr s) name = (if name = ''length'' then Some (JNum (num_of_nat (length s))) else None)"
| "own_prop v name = None"

fun get_prop :: "json option \<Rightarrow> string \<Rightarrow> json option outcome" where
  "get_prop None name = Throws (cannot_read ''undefined'' name)"
| "get_prop (Some JNull) name = Throws (cannot_read ''null'' name)"
| "get_prop (Some v) name = Returns (own_prop v name)"

text \<open>Optional chaining \<^verbatim>\<open>v?.name\<close>.\<close>

fun get_opt :: "json option \<Rightarrow> string \<Rightarrow> json option" where
  "get_opt None name = None"
| "get_opt (Some JNull) name = None"
| "get_opt (Some v) name = own_prop v name"

text \<open>\<^verbatim>\<open>v[0]\<close>: the first element of an array, the first code unit of a string, the
  field \<^verbatim>\<open>0\<close> of an object; it throws on \<^verbatim>\<open>null\<close> and \<^verbatim>\<open>undefined\<close>.\<close>

fun first_elem :: "json \<Rightarrow> json option" where
  "first_elem (JArr xs) = (case xs of [] \<Rightarrow> None | x # _ \<Rightarrow> Some x)"
| "first_elem (JStr s) = (case s of [] \<Rightarrow> None | c # _ \<Rightarrow> Some (JStr [c]))"
| "first_elem (JObj kvs) = map_of kvs ''0''"
| "first_elem v = None"

fun get_first :: "json option \<Rightarrow> json option outcome" where
  "get_first None = Throws (cannot_read ''undefined'' ''0'')"
| "get_first (Some JNull) = Throws (cannot_read ''null'' ''0'')"
| "get_first (Some v) = Returns (first_elem v)"

text \<open>\<^verbatim>\<open>safeFirst(arr, fallback = null)\<close>.\<close>

fun safeFirst :: "json option \<Rightarrow> json" where
  "safeFirst (Some (JArr xs)) = (case xs of [] \<Rightarrow> JNull | x # _ \<Rightarrow> x)"
| "safeFirst v = JNull"

subsection \<open>The platform's serialiser\<close>

text \<open>\<^verbatim>\<open>JSON.stringify\<close> on a JSON value: strings are quoted, with the quote, the
  backslash and the control characters escaped.\<close>

definition hex_digit :: "nat \<Rightarrow> char" where
  "hex_digit d = (if d < 10 then char_of (48 + d) else char_of (87 + d))"

definition escape_char :: "char \<Rightarrow> string" where
  "escape_char c =
     (let n = code_unit c in
      if c = CHR 0x22 then [CHR 0x5C, CHR 0x22]
      else if c = CHR 0x5C then [CHR 0x5C, CHR 0x5C]
      else if n = 8 then [CHR 0x5C, CHR ''b'']
      else if n = 9 then [CHR 0x5C, CHR ''t'']
      else if n = 10 then [CHR 0x5C, CHR ''n'']
      else if n = 12 then [CHR 0x5C, CHR ''f'']
      else if n = 13 then [CHR 0x5C, CHR ''r'']
      else if n < 32 then [CHR 0x5C, CHR ''u'', CHR ''0'', CHR ''0'', hex_digit (n div 16), hex_digit (n mod 16)]
      else [c])"

definition quote :: "string \<Rightarrow> string" where
  "quote s = [CHR 0x22] @ concat (map escape_char s) @ [CHR 0x22]"

fun stringify :: "json \<Rightarrow> string"
and stringify_elems :: "json list \<Rightarrow> string"
and stringify_fields :: "(string \<times> json) list \<Rightarrow> string" where
  "stringify JNull = ''null''"
| "stringify (JBool b) = (if b then ''true'' else ''false'')"
| "stringify (JNum n) = (if is_finite n then printed n else ''null'')"
| "stringify (JStr s) = quote s"
| "stringify (JArr xs) = ''['' @ stringify_elems xs @ '']''"
| "stringify (JObj kvs) = ''{'' @ stringify_fields kvs @ ''}''"
| "stringify_elems [] = []"
| "stringify_elems (x # xs) =
     (if xs = [] then stringify x else stringify x @ '','' @ stringify_elems xs)"
| "stringify_fields [] = []"
| "stringify_fields (kv # kvs) =
     (if kvs = [] then quote (fst kv) @ '':'' @ stringify (snd kv)
      else quote (fst kv) @ '':'' @ stringify (snd kv) @ '','' @ stringify_fields kvs)"

text \<open>\<^verbatim>\<open>JSON.parse(JSON.stringify(v))\<close>: a number that is not finite comes back as
  \<^verbatim>\<open>null\<close>; everything else comes back as it was.\<close>

fun wire :: "json \<Rightarrow> json"
and wire_elems :: "json list \<Rightarrow> json list"
and wire_fields :: "(string \<times> json) list \<Rightarrow> (string \<times> json) list" where
  "wire JNull = JNull"
| "wire (JBool b) = JBool b"
| "wire (JNum n) = (if is_finite n then JNum n else JNull)"
| "wire (JStr s) = JStr s"
| "wire (JArr xs) = JArr (wire_elems xs)"
| "wire (JObj kvs) = JObj (wire_fields kvs)"
| "wire_elems [] = []"
| "wire_elems (x # xs) = wire x # wire_elems xs"
| "wire_fields [] = []"
| "wire_fields (kv # kvs) = (fst kv, wire (snd kv)) # wire_fields kvs"

section \<open>Memory: the durable store or the in-process cache\<close>

datatype role = User | Assistant

fun role_str :: "role \<Rightarrow> string" where
  "role_str User = ''user''"
| "role_str Assistant = ''assistant''"

record turn =
  role :: role
  content :: json

type_synonym history = "turn list"

text \<open>\<^verbatim>\<open>parseInt(process.env.MEMORY_TTL_SECONDS || '10800', 10)\<close>: an integer of either
  sign, or \<^verbatim>\<open>NaN\<close>.\<close>

datatype seconds = NaN | Secs int

text \<open>
  What a lookup in \<^verbatim>\<open>process.env\<close> or in an object literal of strings gives: a string,
  \<^verbatim>\<open>undefined\<close>, or a built-in reached through \<^verbatim>\<open>Object.prototype\<close> (written as its
  string conversion). The calls that leave the process follow, with what each is given.
\<close>

datatype mapval = Undefined | Native string | Str string

datatype call =
    RedisGet string
  | RedisSet string history seconds
  | HfSpacePost string string
  | HfApiPost mapval string
  | ReplicatePost mapval json
  | RunwayPost string mapval json
  | ElevenLabsPost string string
  | WikiGet string
  | DuckGet string
  | Translate string string

text \<open>
  What the outside answers. \<^verbatim>\<open>axios\<close> gives the payload \<^verbatim>\<open>r.data\<close> of a call or the
  error it throws; \<^verbatim>\<open>axios_buffer\<close> does so for the call made with
  \<^verbatim>\<open>responseType: 'arraybuffer'\<close>, whose payload is the bytes of the body;
  \<^verbatim>\<open>redis_raises\<close> says whether the body of a \<^verbatim>\<open>try\<close> around a
  durable-store command throws (the command rejects, or the value read does not parse);
  \<^verbatim>\<open>translateLib\<close> resolves with a result whose \<^verbatim>\<open>text\<close> is a string, or rejects;
  \<^verbatim>\<open>t_get\<close> and \<^verbatim>\<open>t_save\<close> are the clock (\<^verbatim>\<open>Date.now()\<close>, in milliseconds) when a
  request reads and writes its memory.
\<close>

record world =
  axios :: "call \<Rightarrow> json outcome"
  axios_buffer :: "call \<Rightarrow> string outcome"
  redis_raises :: "call \<Rightarrow> exn option"
  translateLib :: "string \<Rightarrow> string \<Rightarrow> string outcome"
  t_get :: nat
  t_save :: nat

text \<open>
  The module's state: the flag \<^verbatim>\<open>usingRedis\<close>, whether the client \<^verbatim>\<open>redis\<close> is
  non-null, the entries of \<^verbatim>\<open>memCache\<close> with their time of death \<^verbatim>\<open>t\<close> in
  milliseconds (\<^const>\<open>None\<close> when it is \<^verbatim>\<open>NaN\<close>), the entries of the durable store with
  theirs, and \<^verbatim>\<open>MEMORY_TTL\<close>. The durable store holds only what \<^verbatim>\<open>saveMemory\<close> wrote,
  kept as the history that \<^verbatim>\<open>JSON.parse\<close> reads back.

  \<^verbatim>\<open>memCache\<close> copies every value it takes and every value it gives (the library's
  \<^verbatim>\<open>useClones\<close>). What the copy of a JSON value is belongs to the library, and a copy can
  differ from its original (fields named like those of \<^verbatim>\<open>Object.prototype\<close> are left
  out) in ways a JSON value cannot always express (a field \<^verbatim>\<open>__proto__\<close> changes the
  prototype of the copy). The state therefore carries the copy as a function
  \<^verbatim>\<open>cache_clone\<close> on the contents of turns, of which nothing is assumed.
\<close>

record store =
  usingRedis :: bool
  redis :: bool
  memCache :: "string \<Rightarrow> (history \<times> int option) option"
  redisDb :: "string \<Rightarrow> (history \<times> int) option"
  MEMORY_TTL :: seconds
  cache_clone :: "json \<Rightarrow> json"

definition memKey :: "int \<Rightarrow> string" where
  "memKey chatId = ''memory:'' @ show_int chatId"

text \<open>The copy of a history: an array of the copies of its turns, whose fields
  \<^verbatim>\<open>role\<close> and \<^verbatim>\<open>content\<close> are kept.\<close>

definition clone_history :: "(json \<Rightarrow> json) \<Rightarrow> history \<Rightarrow> history" where
  "clone_history c h = map (\<lambda>t. \<lparr>role = role t, content = c (content t)\<rparr>) h"

text \<open>What \<^verbatim>\<open>JSON.parse\<close> reads back from the \<^verbatim>\<open>JSON.stringify\<close> of a history.\<close>

definition wire_history :: "history \<Rightarrow> history" where
  "wire_history h = map (\<lambda>t. \<lparr>role = role t, content = wire (content t)\<rparr>) h"

text \<open>\<^verbatim>\<open>memCache.get(key)\<close>: \<^verbatim>\<open>undefined\<close> when the key is missing or dead (its time
  \<^verbatim>\<open>t\<close> is not 0 and lies before now), else a copy of the value.\<close>

definition cache_get :: "store \<Rightarrow> nat \<Rightarrow> string \<Rightarrow> history option" where
  "cache_get st now key =
     (case memCache st key of
        None \<Rightarrow> None
      | Some (h, None) \<Rightarrow> Some (clone_history (cache_clone st) h)
      | Some (h, Some t) \<Rightarrow>
          (if t \<noteq> 0 \<and> t < int now then None else Some (clone_history (cache_clone st) h)))"

text \<open>The time of death the cache gives an entry set with the standard time-to-live:
  0 (never) for a time-to-live of 0, else now plus the time-to-live.\<close>

definition livetime :: "seconds \<Rightarrow> nat \<Rightarrow> int option" where
  "livetime ttl now =
     (case ttl of
        NaN \<Rightarrow> None
      | Secs n \<Rightarrow> Some (if n = 0 then 0 else int now + n * 1000))"

text \<open>\<^verbatim>\<open>memCache.set(key, history)\<close>: a copy of the history is kept.\<close>

definition cache_set :: "store \<Rightarrow> nat \<Rightarrow> string \<Rightarrow> history \<Rightarrow> store" where
  "cache_set st now key h =
     st\<lparr>memCache := (memCache st)(key \<mapsto>
           (clone_history (cache_clone st) h, livetime (MEMORY_TTL st) now))\<rparr>"

text \<open>\<^verbatim>\<open>redis.get(key)\<close> when it resolves: \<^verbatim>\<open>null\<close> for a missing or expired key.\<close>

definition redis_get :: "store \<Rightarrow> nat \<Rightarrow> string \<Rightarrow> history option" where
  "redis_get st now key =
     (case redisDb st key of
        None \<Rightarrow> None
      | Some (h, t) \<Rightarrow> (if int now \<le> t then Some h else None))"

text \<open>\<^verbatim>\<open>redis.set(key, value, 'EX', MEMORY_TTL)\<close> rejects when the expiry is not a
  positive integer, and whenever the outside makes it.\<close>

definition set_raises :: "world \<Rightarrow> store \<Rightarrow> call \<Rightarrow> exn option" where
  "set_raises w st c =
     (case MEMORY_TTL st of
        NaN \<Rightarrow> Some (Error ''ERR value is not an integer or out of range'')
      | Secs n \<Rightarrow> (if n \<le> 0 then Some (Error ''ERR invalid expire time'') else redis_raises w c))"

text \<open>The time of death of a key set in the durable store.\<close>

definition redis_expiry :: "seconds \<Rightarrow> nat \<Rightarrow> int" where
  "redis_expiry ttl now = (case ttl of NaN \<Rightarrow> int now | Secs n \<Rightarrow> int now + n * 1000)"

definition getMemory :: "world \<Rightarrow> store \<Rightarrow> nat \<Rightarrow> int \<Rightarrow> history \<times> store \<times> call list" where
  "getMemory w st now chatId =
     (let key = memKey chatId in
      if usingRedis st \<and> redis st then
        (case redis_raises w (RedisGet key) of
           None \<Rightarrow>
             ((case redis_get st now key of None \<Rightarrow> [] | Some h \<Rightarrow> h), st, [RedisGet key])
         | Some e \<Rightarrow>
             (let st' = st\<lparr>usingRedis := False\<rparr> in
              ((case cache_get st' now key of None \<Rightarrow> [] | Some h \<Rightarrow> h), st', [RedisGet key])))
      else ((case cache_get st now key of None \<Rightarrow> [] | Some h \<Rightarrow> h), st, []))"

definition saveMemory :: "world \<Rightarrow> store \<Rightarrow> nat \<Rightarrow> int \<Rightarrow> history \<Rightarrow> store \<times> call list" where
  "saveMemory w st now chatId h =
     (let key = memKey chatId; c = RedisSet key h (MEMORY_TTL st) in
      if usingRedis st \<and> redis st then
        (case set_raises w st c of
           None \<Rightarrow>
             (st\<lparr>redisDb := (redisDb st)(key \<mapsto>
                    (wire_history h, redis_expiry (MEMORY_TTL st) now))\<rparr>, [c])
         | Some e \<Rightarrow> (cache_set (st\<lparr>usingRedis := False\<rparr>) now key h, [c]))
      else (cache_set st now key h, []))"

section \<open>Configuration\<close>

type_synonym env = "string \<Rightarrow> string option"

text \<open>A name that is not an own key of a plain object is looked up in
  \<^verbatim>\<open>Object.prototype\<close>.\<close>

definition proto_functions :: "string list" where
  "proto_functions =
     [''__defineGetter__'', ''__defineSetter__'', ''hasOwnProperty'', ''__lookupGetter__'',
      ''__lookupSetter__'', ''isPrototypeOf'', ''propertyIsEnumerable'', ''toString'',
      ''valueOf'', ''toLocaleString'']"

definition object_proto :: "string \<Rightarrow> mapval" where
  "object_proto name =
     (if name = ''constructor'' then Native ''function Object() { [native code] }''
      else if name = ''__proto__'' then Native ''[object Object]''
      else if name \<in> set proto_functions
      then Native (''function '' @ name @ ''() { [native code] }'')
      else Undefined)"

definition penv :: "env \<Rightarrow> string \<Rightarrow> mapval" where
  "penv env name = (case env name of Some s \<Rightarrow> Str s | None \<Rightarrow> object_proto name)"

fun mtruthy :: "mapval \<Rightarrow> bool" where
  "mtruthy Undefined = False"
| "mtruthy (Native n) = True"
| "mtruthy (Str s) = (s \<noteq> [])"

text \<open>\<^verbatim>\<open>a || b\<close>.\<close>

definition mor :: "mapval \<Rightarrow> mapval \<Rightarrow> mapval" where
  "mor a b = (if mtruthy a then a else b)"

fun mstr :: "mapval \<Rightarrow> string" where
  "mstr Undefined = ''undefined''"
| "mstr (Native n) = n"
| "mstr (Str s) = s"

text \<open>\<^verbatim>\<open>HF_MODEL_MAP[key]\<close>.\<close>

definition HF_MODEL_MAP :: "env \<Rightarrow> string \<Rightarrow> mapval" where
  "HF_MODEL_MAP env key =
     (if key = ''llama2'' then mor (penv env ''MODEL_LLAMA2'') (mor (penv env ''HF_URL'') (penv env ''HF_MODEL''))
      else if key = ''mistral'' then mor (penv env ''MODEL_MISTRAL'') (penv env ''HF_URL'')
      else if key = ''flan_t5'' then mor (penv env ''MODEL_FLAN_T5'') (penv env ''HF_URL'')
      else if key = ''falcon'' then mor (penv env ''MODEL_FALCON'') (penv env ''HF_URL'')
      else if key = ''gpt2'' then mor (penv env ''MODEL_GPT2'') (penv env ''HF_URL'')
      else if key = ''bloom'' then mor (penv env ''MODEL_BLOOM'') (penv env ''HF_URL'')
      else if key = ''default'' then mor (penv env ''MODEL'') (mor (penv env ''HF_URL'') (penv env ''HF_MODEL''))
      else object_proto key)"

section \<open>Provider adapters\<close>

definition nl :: string where
  "nl = [CHR 0x0A]"

definition withPrefix :: "string \<Rightarrow> string" where
  "withPrefix s = ''Belaynish'' @ nl @ nl @ s"

subsection \<open>Hugging Face Space\<close>

text \<open>The body of the \<^verbatim>\<open>try\<close> in \<^verbatim>\<open>callHfSpace\<close>, after the post: what it returns, or
  \<^const>\<open>None\<close> when it falls through to the next URL.\<close>

definition space_body :: "json \<Rightarrow> string option outcome" where
  "space_body d =
     (let dd = get_opt (Some d) ''data'' in
      if truthy dd \<and> truthy (get_opt dd ''length'')
      then bind (get_first dd) (\<lambda>x. bind (js_String x) (\<lambda>s. Returns (Some s)))
      else (let g = get_opt (Some d) ''generated_text'' in
            if truthy g then bind (js_String g) (\<lambda>s. Returns (Some s)) else Returns None))"

fun try_space :: "world \<Rightarrow> string \<Rightarrow> string list \<Rightarrow> string outcome \<times> call list" where
  "try_space w prompt [] = (Throws (Error ''HF Space did not return valid output''), [])"
| "try_space w prompt (url # urls) =
     (let c = HfSpacePost url prompt in
      case bind (axios w c) space_body of
        Returns (Some s) \<Rightarrow> (Returns s, [c])
      | _ \<Rightarrow> (case try_space w prompt urls of (r, cs) \<Rightarrow> (r, c # cs)))"

definition callHfSpace :: "env \<Rightarrow> world \<Rightarrow> string \<Rightarrow> mapval \<Rightarrow> string outcome \<times> call list" where
  "callHfSpace env w prompt spaceUrl0 =
     (let spaceUrl = (if spaceUrl0 = Undefined then penv env ''HF_SPACE_URL'' else spaceUrl0) in
      if \<not> mtruthy spaceUrl then (Throws (Error ''HF_SPACE_URL not configured''), [])
      else (case spaceUrl of
              Str u \<Rightarrow>
                (let base = strip_slash u in
                 try_space w prompt [base @ ''/run/predict'', base @ ''/api/predict'', base])
            | _ \<Rightarrow> (Throws (TypeError ''spaceUrl.replace is not a function''), [])))"

subsection \<open>Hugging Face inference API\<close>

fun is_str :: "json \<Rightarrow> bool" where
  "is_str (JStr s) = True"
| "is_str v = False"

fun is_arr :: "json \<Rightarrow> bool" where
  "is_arr (JArr xs) = True"
| "is_arr v = False"

text \<open>\<^verbatim>\<open>v[0]\<close> of a value that was tested truthy.\<close>

fun first_of :: "json option \<Rightarrow> json option" where
  "first_of None = None"
| "first_of (Some v) = first_elem v"

text \<open>The shapes \<^verbatim>\<open>callHfApi\<close> parses, in its order; the last line is its fallback.\<close>

definition hf_api_parse :: "json \<Rightarrow> json" where
  "hf_api_parse d =
     (if is_str d then d
      else (case truthy_val (if is_arr d then get_opt (first_elem d) ''generated_text'' else None) of
              Some g \<Rightarrow> g
            | None \<Rightarrow>
        (case truthy_val (get_opt (Some d) ''generated_text'') of
              Some g \<Rightarrow> g
            | None \<Rightarrow>
        (case (let dd = get_opt (Some d) ''data'' in
               if truthy dd then truthy_val (first_of dd) else None) of
              Some x \<Rightarrow> x
            | None \<Rightarrow> JStr (take 4000 (stringify d))))))"

definition callHfApi :: "env \<Rightarrow> world \<Rightarrow> string \<Rightarrow> mapval \<Rightarrow> json outcome \<times> call list" where
  "callHfApi env w prompt modelUrl0 =
     (let modelUrl = (if modelUrl0 = Undefined then penv env ''HF_URL'' else modelUrl0) in
      if \<not> mtruthy modelUrl \<or> \<not> mtruthy (penv env ''HUGGINGFACE_API_KEY'')
      then (Throws (Error ''HF API not configured''), [])
      else (let c = HfApiPost modelUrl prompt in
            (bind (axios w c) (\<lambda>d. Returns (hf_api_parse d)), [c])))"

subsection \<open>Replicate, Runway, ElevenLabs\<close>

definition callReplicate :: "env \<Rightarrow> world \<Rightarrow> mapval \<Rightarrow> json \<Rightarrow> json outcome \<times> call list" where
  "callReplicate env w versionOrModel input =
     (if \<not> mtruthy (penv env ''REPLICATE_API_KEY'')
      then (Throws (Error ''REPLICATE_API_KEY missing''), [])
      else (let c = ReplicatePost versionOrModel input in (axios w c, [c])))"

definition callRunway :: "env \<Rightarrow> world \<Rightarrow> mapval \<Rightarrow> mapval \<Rightarrow> json \<Rightarrow> json outcome \<times> call list" where
  "callRunway env w endpoint model input =
     (if \<not> mtruthy (penv env ''RUNWAY_API_KEY'')
      then (Throws (Error ''RUNWAY_API_KEY missing''), [])
      else (case endpoint of
              Str u \<Rightarrow> (let c = RunwayPost (strip_slash u) model input in (axios w c, [c]))
            | Undefined \<Rightarrow> (Throws (cannot_read ''undefined'' ''replace''), [])
            | Native n \<Rightarrow> (Throws (TypeError ''endpoint.replace is not a function''), [])))"

text \<open>The audio: \<^verbatim>\<open>Buffer.from(r.data)\<close> of the bytes the client gives.\<close>

definition callElevenLabsTTS :: "env \<Rightarrow> world \<Rightarrow> string \<Rightarrow> string outcome \<times> call list" where
  "callElevenLabsTTS env w txt0 =
     (if \<not> mtruthy (penv env ''ELEVENLABS_API_KEY'') \<or> \<not> mtruthy (penv env ''ELEVENLABS_VOICE_ID'')
      then (Throws (Error ''ElevenLabs not configured''), [])
      else (case penv env ''ELEVENLABS_API_URL'' of
              Str u \<Rightarrow>
                (let c = ElevenLabsPost
                           (strip_slash u @ ''/text-to-speech/'' @ mstr (penv env ''ELEVENLABS_VOICE_ID''))
                           txt0
                 in (axios_buffer w c, [c]))
            | Undefined \<Rightarrow> (Throws (cannot_read ''undefined'' ''replace''), [])
            | Native n \<Rightarrow> (Throws (TypeError ''process.env.ELEVENLABS_API_URL.replace is not a function''), [])))"

subsection \<open>Web helpers\<close>

definition wikiSummary :: "world \<Rightarrow> string \<Rightarrow> json \<times> call list" where
  "wikiSummary w query =
     (let c = WikiGet query in
      (case bind (axios w c) (\<lambda>d. get_prop (Some d) ''extract'') of
         Returns e \<Rightarrow> (case truthy_val e of Some x \<Rightarrow> x | None \<Rightarrow> JStr ''No summary found'')
       | Throws e \<Rightarrow> JStr ''Wikipedia lookup failed'',
       [c]))"

definition duck_body :: "json \<Rightarrow> json" where
  "duck_body d =
     (case truthy_val (get_opt (Some d) ''AbstractText'') of
        Some a \<Rightarrow> a
      | None \<Rightarrow>
          (let topics = get_opt (Some d) ''RelatedTopics'';
               first = safeFirst (if truthy topics then topics else Some (JArr []))
           in case truthy_val (get_opt (Some first) ''Text'') of
                Some t \<Rightarrow> t
              | None \<Rightarrow> JStr ''No DuckDuckGo instant answer''))"

definition duckDuck :: "world \<Rightarrow> string \<Rightarrow> json \<times> call list" where
  "duckDuck w query =
     (let c = DuckGet query in
      (case axios w c of
         Returns d \<Rightarrow> duck_body d
       | Throws e \<Rightarrow> JStr ''DuckDuckGo lookup failed'',
       [c]))"

definition translateUnofficial :: "world \<Rightarrow> string \<Rightarrow> string \<Rightarrow> string outcome \<times> call list" where
  "translateUnofficial w txt0 to =
     (case translateLib w txt0 to of
        Returns t \<Rightarrow> (Returns t, [Translate txt0 to])
      | Throws e \<Rightarrow> (Returns txt0, [Translate txt0 to]))"

section \<open>The unified /ai handler\<close>

text \<open>What the handler sends back: \<^verbatim>\<open>ctx.reply\<close>, \<^verbatim>\<open>ctx.replyWithVoice\<close> (a buffer or
  a URL), \<^verbatim>\<open>ctx.replyWithPhoto\<close> and \<^verbatim>\<open>ctx.replyWithVideo\<close> (with their caption),
  \<^verbatim>\<open>ctx.replyWithDocument\<close>.\<close>

datatype reply =
    Text string
  | VoiceSource string
  | VoiceUrl json
  | Photo json string
  | Video json string
  | Document json

subsection \<open>Chat\<close>

definition render_turn :: "turn \<Rightarrow> string outcome" where
  "render_turn m = bind (js_String (Some (content m))) (\<lambda>s. Returns (role_str (role m) @ '': '' @ s))"

fun map_outcome :: "('a \<Rightarrow> 'b outcome) \<Rightarrow> 'a list \<Rightarrow> 'b list outcome" where
  "map_outcome f [] = Returns []"
| "map_outcome f (x # xs) = bind (f x) (\<lambda>y. bind (map_outcome f xs) (\<lambda>ys. Returns (y # ys)))"

text \<open>\<^verbatim>\<open>mem.map((m) => `${m.role}: ${m.content}`).join('\n')\<close>.\<close>

definition contextStr :: "history \<Rightarrow> string outcome" where
  "contextStr mem = bind (map_outcome render_turn mem) (\<lambda>ls. Returns (join nl ls))"

text \<open>Each block of the chat branch takes the answer so far (\<^verbatim>\<open>null\<close> at first) and
  gives the answer after it, with the calls it made.\<close>

definition chat_space :: "env \<Rightarrow> world \<Rightarrow> string \<Rightarrow> json \<times> call list" where
  "chat_space env w ctx =
     (if mtruthy (penv env ''HF_SPACE_URL'') then
        (case callHfSpace env w ctx (penv env ''HF_SPACE_URL'') of
           (Returns s, cs) \<Rightarrow> (JStr s, cs)
         | (Throws e, cs) \<Rightarrow> (JNull, cs))
      else (JNull, []))"

definition chat_api :: "env \<Rightarrow> world \<Rightarrow> string \<Rightarrow> string \<Rightarrow> json \<Rightarrow> json \<times> call list" where
  "chat_api env w ctx modelKey answer =
     (if \<not> truthy_json answer then
        (let hfModelUrl = mor (HF_MODEL_MAP env modelKey) (HF_MODEL_MAP env ''default'') in
         if mtruthy hfModelUrl \<and> mtruthy (penv env ''HUGGINGFACE_API_KEY'') then
           (case callHfApi env w ctx hfModelUrl of
              (Returns a, cs) \<Rightarrow> (a, cs)
            | (Throws e, cs) \<Rightarrow> (answer, cs))
         else (answer, []))
      else (answer, []))"

definition rep_key_name :: "string \<Rightarrow> mapval" where
  "rep_key_name modelKey =
     mor (if modelKey = ''llama2'' then Str ''REPLICATE_CHAT_MODEL_LLAMA2''
          else if modelKey = ''gpt5'' then Str ''REPLICATE_CHAT_MODEL_GPT5''
          else if modelKey = ''gpt4'' then Str ''REPLICATE_CHAT_MODEL_GPT4''
          else if modelKey = ''gpt35'' then Str ''REPLICATE_CHAT_MODEL_GPT35''
          else if modelKey = ''mistral'' then Str ''REPLICATE_CHAT_MODEL_MISTRAL''
          else object_proto modelKey)
         (Str ''REPLICATE_CHAT_MODEL_GPT5'')"

text \<open>The text taken from the reply of the chat model: the first output, or a notice
  with the job's status; otherwise the answer stays as it was.\<close>

definition replicate_answer :: "json \<Rightarrow> json \<Rightarrow> json outcome" where
  "replicate_answer r answer =
     bind (get_prop (Some r) ''output'') (\<lambda>out.
     bind (if truthy out then get_prop out ''length'' else Returns out) (\<lambda>test.
       if truthy test
       then bind (get_first out) (\<lambda>x. bind (js_String x) (\<lambda>s. Returns (JStr s)))
       else bind (get_prop (Some r) ''status'') (\<lambda>status.
              if truthy status
              then bind (js_String status) (\<lambda>s.
                     Returns (JStr (''Started replicate job (status '' @ s @ ''). Check dashboard.'')))
              else Returns answer)))"

definition chat_replicate :: "env \<Rightarrow> world \<Rightarrow> string \<Rightarrow> string \<Rightarrow> json \<Rightarrow> json \<times> call list" where
  "chat_replicate env w prompt modelKey answer =
     (if \<not> truthy_json answer \<and> mtruthy (penv env ''REPLICATE_API_KEY'') then
        (let repModel = penv env (mstr (rep_key_name modelKey)) in
         if mtruthy repModel then
           (case callReplicate env w repModel (JObj [(''prompt'', JStr prompt)]) of
              (Returns r, cs) \<Rightarrow>
                (case replicate_answer r answer of
                   Returns a \<Rightarrow> (a, cs)
                 | Throws e \<Rightarrow> (answer, cs))
            | (Throws e, cs) \<Rightarrow> (answer, cs))
         else (answer, []))
      else (answer, []))"

text \<open>Line 323: the text synthesised from the two lookups.\<close>

definition web_text :: "json \<Rightarrow> json \<Rightarrow> string outcome" where
  "web_text wiki ddg =
     bind (if truthy_json wiki
           then bind (js_String (Some wiki)) (\<lambda>s. Returns (''From Wikipedia: '' @ s))
           else Returns []) (\<lambda>a.
     bind (if truthy_json ddg
           then bind (js_String (Some ddg)) (\<lambda>s. Returns (nl @ nl @ ''Duck: '' @ s))
           else Returns []) (\<lambda>b.
     Returns (a @ b)))"

definition no_chat_provider :: string where
  "no_chat_provider = ''No provider available to answer this question.''"

definition chat_web :: "world \<Rightarrow> string \<Rightarrow> json \<Rightarrow> json outcome \<times> call list" where
  "chat_web w prompt answer =
     (if \<not> truthy_json answer then
        (case wikiSummary w prompt of (wiki, c1) \<Rightarrow>
         (case duckDuck w prompt of (ddg, c2) \<Rightarrow>
           (bind (web_text wiki ddg) (\<lambda>t.
              Returns (JStr (if t = [] then no_chat_provider else t))),
            c1 @ c2)))
      else (Returns answer, []))"

definition chat_resolve :: "env \<Rightarrow> world \<Rightarrow> string \<Rightarrow> string \<Rightarrow> string \<Rightarrow> json outcome \<times> call list" where
  "chat_resolve env w ctx prompt modelKey =
     (case chat_space env w ctx of (a1, c1) \<Rightarrow>
      (case chat_api env w ctx modelKey a1 of (a2, c2) \<Rightarrow>
       (case chat_replicate env w prompt modelKey a2 of (a3, c3) \<Rightarrow>
        (case chat_web w prompt a3 of (r, c4) \<Rightarrow> (r, c1 @ c2 @ c3 @ c4)))))"

text \<open>\<^verbatim>\<open>parts[i]\<close> of an array of strings, \<^verbatim>\<open>undefined\<close> beyond its end.\<close>

definition part :: "string list \<Rightarrow> nat \<Rightarrow> string option" where
  "part parts i = (if i < length parts then Some (parts ! i) else None)"

text \<open>\<^verbatim>\<open>parts[1] ? parts[1].toLowerCase() : ''\<close>.\<close>

definition firstToken :: "string list \<Rightarrow> string" where
  "firstToken parts = (case part parts 1 of None \<Rightarrow> [] | Some p \<Rightarrow> toLowerCase p)"

text \<open>The model key and the prompt of \<^verbatim>\<open>/ai chat [model] <prompt>\<close>.\<close>

definition chat_args :: "env \<Rightarrow> string list \<Rightarrow> string \<Rightarrow> string \<times> string" where
  "chat_args env parts rest =
     (if mtruthy (HF_MODEL_MAP env (firstToken parts))
      then (firstToken parts, join '' '' (drop 2 parts))
      else (''llama2'', rest))"

definition need_prompt :: reply where
  "need_prompt = Text (withPrefix ''Please provide a prompt for chat.'')"

definition chat :: "env \<Rightarrow> world \<Rightarrow> store \<Rightarrow> int \<Rightarrow> string list \<Rightarrow> string
                      \<Rightarrow> reply outcome \<times> store \<times> call list" where
  "chat env w st uid parts rest =
     (case chat_args env parts rest of (modelKey, prompt) \<Rightarrow>
      if prompt = [] then (Returns need_prompt, st, [])
      else
       (case getMemory w st (t_get w) uid of (mem0, st1, c1) \<Rightarrow>
        (let mem = mem0 @ [\<lparr>role = User, content = JStr prompt\<rparr>] in
         case contextStr mem of
           Throws e \<Rightarrow> (Throws e, st1, c1)
         | Returns ctx \<Rightarrow>
            (case chat_resolve env w ctx prompt modelKey of
               (Throws e, c2) \<Rightarrow> (Throws e, st1, c1 @ c2)
             | (Returns answer, c2) \<Rightarrow>
                (let mem' = mem @ [\<lparr>role = Assistant, content = answer\<rparr>] in
                 case saveMemory w st1 (t_save w) uid mem' of (st2, c3) \<Rightarrow>
                   (bind (js_String (Some answer)) (\<lambda>s. Returns (Text (withPrefix s))),
                    st2, c1 @ c2 @ c3))))))"

subsection \<open>Translate\<close>

definition translate_args :: "string \<Rightarrow> string \<times> string" where
  "translate_args rest =
     (let parts2 = split_sp rest in
      if length parts2 > 1 \<and> length (hd parts2) \<le> 3
      then (hd parts2, join '' '' (drop 1 parts2))
      else (''en'', rest))"

definition translate_mode :: "world \<Rightarrow> string \<Rightarrow> reply outcome \<times> call list" where
  "translate_mode w rest =
     (case translate_args rest of (to, textToTranslate) \<Rightarrow>
      (case translateUnofficial w textToTranslate to of (r, cs) \<Rightarrow>
        (bind r (\<lambda>t. Returns (Text (withPrefix t))), cs)))"

subsection \<open>Text to speech\<close>

definition no_tts :: reply where
  "no_tts = Text (withPrefix ''No TTS provider configured.'')"

definition tts_eleven :: "env \<Rightarrow> world \<Rightarrow> string \<Rightarrow> reply option \<times> call list" where
  "tts_eleven env w rest =
     (if mtruthy (penv env ''ELEVENLABS_API_KEY'') \<and> mtruthy (penv env ''ELEVENLABS_VOICE_ID'') then
        (case callElevenLabsTTS env w rest of
           (Returns audioBuf, cs) \<Rightarrow> (Some (VoiceSource audioBuf), cs)
         | (Throws e, cs) \<Rightarrow> (None, cs))
      else (None, []))"

definition tts_replicate :: "env \<Rightarrow> world \<Rightarrow> string \<Rightarrow> reply option \<times> call list" where
  "tts_replicate env w rest =
     (if mtruthy (penv env ''REPLICATE_API_KEY'') \<and> mtruthy (penv env ''REPLICATE_TTS_MODEL'') then
        (case callReplicate env w (penv env ''REPLICATE_TTS_MODEL'') (JObj [(''text'', JStr rest)]) of
           (Returns r, cs) \<Rightarrow>
             (case get_prop (Some r) ''output'' of
                Returns out \<Rightarrow>
                  (if truthy_json (safeFirst out) then (Some (VoiceUrl (safeFirst out)), cs)
                   else (None, cs))
              | Throws e \<Rightarrow> (None, cs))
         | (Throws e, cs) \<Rightarrow> (None, cs))
      else (None, []))"

definition tts :: "env \<Rightarrow> world \<Rightarrow> string \<Rightarrow> reply outcome \<times> call list" where
  "tts env w rest =
     (case tts_eleven env w rest of
        (Some r, c1) \<Rightarrow> (Returns r, c1)
      | (None, c1) \<Rightarrow>
          (case tts_replicate env w rest of
             (Some r, c2) \<Rightarrow> (Returns r, c1 @ c2)
           | (None, c2) \<Rightarrow> (Returns no_tts, c1 @ c2)))"

subsection \<open>Media\<close>

definition runwayModes :: "string list" where
  "runwayModes = [''t2i'', ''t2v'', ''i2v'', ''v2v'', ''upscale'', ''act'']"

definition repModes :: "string list" where
  "repModes = [''flux'', ''fixface'', ''caption'', ''burncaption'', ''recon3d'']"

text \<open>The two \<^verbatim>\<open>switch\<close> statements: endpoint and model of a Runway mode, model of a
  Replicate mode.\<close>

definition runway_target :: "env \<Rightarrow> string \<Rightarrow> mapval \<times> mapval" where
  "runway_target env sub =
     (if sub = ''t2i'' then (penv env ''RUNWAY_URL_TEXT_TO_IMAGE'', penv env ''RUNWAY_MODEL_TEXT_TO_IMAGE'')
      else if sub = ''t2v'' then (penv env ''RUNWAY_URL_TEXT_TO_VIDEO'', penv env ''RUNWAY_MODEL_TEXT_TO_VIDEO'')
      else if sub = ''i2v'' then (penv env ''RUNWAY_URL_IMAGE_TO_VIDEO'', penv env ''RUNWAY_MODEL_IMAGE_TO_VIDEO'')
      else if sub = ''v2v'' then (penv env ''RUNWAY_URL_VIDEO_TO_VIDEO'', penv env ''RUNWAY_MODEL_VIDEO_TO_VIDEO'')
      else if sub = ''upscale'' then (penv env ''RUNWAY_URL_VIDEO_UPSCALE'', penv env ''RUNWAY_MODEL_VIDEO_UPSCALE'')
      else if sub = ''act'' then (penv env ''RUNWAY_URL_CHARACTER_PERFORMANCE'', penv env ''RUNWAY_MODEL_CHARACTER_PERFORMANCE'')
      else (Undefined, Undefined))"

definition rep_media_model :: "env \<Rightarrow> string \<Rightarrow> mapval" where
  "rep_media_model env sub =
     (if sub = ''flux'' then penv env ''REPLICATE_IMAGE_MODEL''
      else if sub = ''fixface'' then penv env ''REPLICATE_UPSCALE_MODEL''
      else if sub = ''caption'' then penv env ''REPLICATE_VIDEO_CAPTION_MODEL''
      else if sub = ''burncaption'' then penv env ''REPLICATE_VIDEO_CAPTIONED_MODEL''
      else if sub = ''recon3d'' then penv env ''REPLICATE_3D_MODEL''
      else Undefined)"

definition media_runway :: "env \<Rightarrow> world \<Rightarrow> string \<Rightarrow> string \<Rightarrow> reply outcome \<times> call list" where
  "media_runway env w sub payload =
     (case runway_target env sub of (endpoint, model) \<Rightarrow>
      (case callRunway env w endpoint model
              (if sub = ''t2i'' \<or> sub = ''t2v'' then JObj [(''prompt'', JStr payload)]
               else if sub = ''i2v'' then JObj [(''image_url'', JStr payload)]
               else JObj [(''video_url'', JStr payload)]) of
         (Throws e, cs) \<Rightarrow> (Throws e, cs)
       | (Returns res, cs) \<Rightarrow>
           (bind (get_prop (Some res) ''output'') (\<lambda>ov.
              let out = safeFirst ov in
              if \<not> truthy_json out then Returns (Text (withPrefix ''Runway returned no output.''))
              else if sub = ''t2i'' \<or> sub = ''flux'' \<or> sub = ''fixface''
              then Returns (Photo out (withPrefix payload))
              else Returns (Video out (withPrefix payload))),
            cs)))"

definition media_replicate :: "env \<Rightarrow> world \<Rightarrow> string \<Rightarrow> string \<Rightarrow> reply outcome \<times> call list" where
  "media_replicate env w sub payload =
     (let repModel = rep_media_model env sub in
      if \<not> mtruthy repModel
      then (Returns (Text (withPrefix ''Replicate model not set for this mode.'')), [])
      else
       (case callReplicate env w repModel
               (if sub = ''flux'' then JObj [(''prompt'', JStr payload)]
                else if sub = ''fixface'' then JObj [(''image'', JStr payload)]
                else JObj [(''video'', JStr payload)]) of
          (Throws e, cs) \<Rightarrow> (Throws e, cs)
        | (Returns r, cs) \<Rightarrow>
            (bind (get_prop (Some r) ''output'') (\<lambda>ov.
               let out = safeFirst ov in
               if \<not> truthy_json out then Returns (Text (withPrefix ''Replicate returned no output.''))
               else if sub = ''flux'' \<or> sub = ''fixface'' then Returns (Photo out (withPrefix payload))
               else if sub = ''recon3d'' then Returns (Document out)
               else if sub = ''caption''
               then bind (js_String (Some out)) (\<lambda>s. Returns (Text (withPrefix s)))
               else Returns (Video out (withPrefix payload))),
             cs)))"

definition no_media_provider :: reply where
  "no_media_provider = Text (withPrefix ''No provider configured for that media mode.'')"

text \<open>The inner \<^verbatim>\<open>try\<close> of the media branch.\<close>

definition media_try :: "env \<Rightarrow> world \<Rightarrow> string \<Rightarrow> string \<Rightarrow> reply outcome \<times> call list" where
  "media_try env w sub payload =
     (if sub \<in> set runwayModes \<and> mtruthy (penv env ''RUNWAY_API_KEY'')
      then media_runway env w sub payload
      else if sub \<in> set repModes \<and> mtruthy (penv env ''REPLICATE_API_KEY'')
      then media_replicate env w sub payload
      else (Returns no_media_provider, []))"

definition media_usage :: reply where
  "media_usage = Text (withPrefix ''Usage: /ai media <mode> <input>. Type /ai help for modes.'')"

text \<open>\<^verbatim>\<open>parts[1] ? parts[1].toLowerCase() : null\<close>.\<close>

definition media_sub :: "string list \<Rightarrow> string option" where
  "media_sub parts =
     (case part parts 1 of
        None \<Rightarrow> None
      | Some p \<Rightarrow> (if p = [] then None else Some (toLowerCase p)))"

definition media :: "env \<Rightarrow> world \<Rightarrow> string list \<Rightarrow> reply outcome \<times> call list" where
  "media env w parts =
     (let payload = join '' '' (drop 2 parts) in
      case media_sub parts of
        None \<Rightarrow> (Returns media_usage, [])
      | Some sub \<Rightarrow>
          (if sub = [] \<or> payload = [] then (Returns media_usage, [])
           else (case media_try env w sub payload of
                   (Throws e, cs) \<Rightarrow> (Returns (Text (withPrefix (''Media error: '' @ message e))), cs)
                 | (Returns r, cs) \<Rightarrow> (Returns r, cs))))"

subsection \<open>Replicate direct chat\<close>

definition replicate_usage :: reply where
  "replicate_usage = Text (withPrefix ''Usage: /ai replicate <env_model_variable> <prompt>'')"

definition replicate_try :: "env \<Rightarrow> world \<Rightarrow> mapval \<Rightarrow> string \<Rightarrow> reply outcome \<times> call list" where
  "replicate_try env w repModel promptText =
     (case callReplicate env w repModel (JObj [(''prompt'', JStr promptText)]) of
        (Throws e, cs) \<Rightarrow> (Throws e, cs)
      | (Returns r, cs) \<Rightarrow>
          (bind (get_prop (Some r) ''output'') (\<lambda>ov.
             let out = (if truthy_json (safeFirst ov) then safeFirst ov else JStr (stringify r)) in
             bind (js_String (Some out)) (\<lambda>s. Returns (Text (withPrefix s)))),
           cs))"

definition replicate_mode :: "env \<Rightarrow> world \<Rightarrow> string list \<Rightarrow> reply outcome \<times> call list" where
  "replicate_mode env w parts =
     (let promptText = join '' '' (drop 2 parts) in
      case part parts 1 of
        None \<Rightarrow> (Returns replicate_usage, [])
      | Some repKey \<Rightarrow>
          (if repKey = [] \<or> promptText = [] then (Returns replicate_usage, [])
           else (let repModel = penv env repKey in
                 if \<not> mtruthy repModel
                 then (Returns (Text (withPrefix (''No replicate model found in env as '' @ repKey))), [])
                 else (case replicate_try env w repModel promptText of
                         (Throws e, cs) \<Rightarrow>
                           (Returns (Text (withPrefix (''Replicate error: '' @ message e))), cs)
                       | (Returns r, cs) \<Rightarrow> (Returns r, cs)))))"

subsection \<open>Help and dispatch\<close>

text \<open>\<^verbatim>\<open>${MEMORY_TTL}\<close>.\<close>

fun show_seconds :: "seconds \<Rightarrow> string" where
  "show_seconds NaN = ''NaN''"
| "show_seconds (Secs n) = show_int n"

definition help_text :: "seconds \<Rightarrow> string" where
  "help_text ttl =
     nl @ join nl
      [''/ai <mode> <input>'',
       [],
       ''Chat (English default):'',
       ''  /ai chat [model] <prompt>       -> Chat: model optional (llama2, mistral, flan_t5, falcon). Default llama2'',
       ''Search:'',
       ''  /ai wiki <topic>                -> Wikipedia summary'',
       ''  /ai duck <query>                -> DuckDuckGo instant answer'',
       ''Translate:'',
       ''  /ai translate <text>            -> translate to English (use second arg '' @ [CHR 0x27] @ ''am'' @ [CHR 0x27] @ '' to get Amharic)'',
       ''Media (Runway / Replicate):'',
       ''  /ai media <mode> <input>'',
       ''    modes: t2i t2v i2v v2v upscale act flux fixface caption burncaption recon3d'',
       ''TTS:'',
       ''  /ai tts <text>                  -> ElevenLabs or Replicate TTS'',
       ''Replicate chat:'',
       ''  /ai replicate <modelname> <prompt> -> call replicate chat model as configured'',
       [],
       ''Memory: conversation memory saved ~'' @ show_seconds ttl @ '' seconds (if Redis configured)'',
       ''      '']"

definition usage :: reply where
  "usage = Text (withPrefix (''Usage: /ai <mode> <input>'' @ nl @
                             ''Modes: chat|wiki|duck|translate|media|tts|replicate''))"

definition need_input :: reply where
  "need_input = Text (withPrefix ''Please provide input. Example: /ai chat Explain Newton laws'')"

definition unknown_mode :: reply where
  "unknown_mode = Text (withPrefix ''Unknown mode. Type /ai help for usage.'')"

text \<open>\<^verbatim>\<open>withPrefix(v)\<close> on a value: the template literal converts it.\<close>

definition reply_value :: "json \<Rightarrow> reply outcome" where
  "reply_value v = bind (js_String (Some v)) (\<lambda>s. Returns (Text (withPrefix s)))"

text \<open>The body of the outer \<^verbatim>\<open>try\<close>.\<close>

definition dispatch :: "env \<Rightarrow> world \<Rightarrow> store \<Rightarrow> int \<Rightarrow> string list \<Rightarrow> string \<Rightarrow> string
                          \<Rightarrow> reply outcome \<times> store \<times> call list" where
  "dispatch env w st uid parts mode rest =
     (if mode = ''help'' then (Returns (Text (withPrefix (help_text (MEMORY_TTL st)))), st, [])
      else if mode = ''chat'' then chat env w st uid parts rest
      else if mode = ''wiki'' then
        (case wikiSummary w rest of (summary, cs) \<Rightarrow> (reply_value summary, st, cs))
      else if mode = ''duck'' then
        (case duckDuck w rest of (res, cs) \<Rightarrow> (reply_value res, st, cs))
      else if mode = ''translate'' then
        (case translate_mode w rest of (r, cs) \<Rightarrow> (r, st, cs))
      else if mode = ''tts'' then
        (case tts env w rest of (r, cs) \<Rightarrow> (r, st, cs))
      else if mode = ''media'' then
        (case media env w parts of (r, cs) \<Rightarrow> (r, st, cs))
      else if mode = ''replicate'' then
        (case replicate_mode env w parts of (r, cs) \<Rightarrow> (r, st, cs))
      else (Returns unknown_mode, st, []))"

text \<open>\<^verbatim>\<open>err && err.message ? err.message : String(err)\<close>.\<close>

fun err_text :: "exn \<Rightarrow> string" where
  "err_text (Error m) = (if m = [] then ''Error'' else m)"
| "err_text (TypeError m) = (if m = [] then ''TypeError'' else m)"

text \<open>The handler of \<^verbatim>\<open>bot.command('ai', ...)\<close> on a message text from user \<^verbatim>\<open>uid\<close>: the
  reply, the module's state after it, and the calls made, in their order.\<close>

definition parts_of :: "string \<Rightarrow> string list" where
  "parts_of msg = drop 1 (split_sp (trim msg))"

definition handler :: "env \<Rightarrow> world \<Rightarrow> store \<Rightarrow> int \<Rightarrow> string \<Rightarrow> reply \<times> store \<times> call list" where
  "handler env w st uid msg =
     (let parts = parts_of msg in
      if parts = [] then (usage, st, [])
      else
       (let mode = toLowerCase (hd parts);
            rest = trim (join '' '' (drop 1 parts))
        in if rest = [] \<and> mode \<noteq> ''help'' then (need_input, st, [])
           else (case dispatch env w st uid parts mode rest of
                   (Returns r, st', cs) \<Rightarrow> (r, st', cs)
                 | (Throws e, st', cs) \<Rightarrow> (Text (withPrefix (''Error: '' @ err_text e)), st', cs))))"

section \<open>Start-up and runs of the memory store\<close>

text \<open>
  Lines 31 to 47: the durable store is used when a URL is configured and the client's
  constructor does not throw (\<^verbatim>\<open>ctor_throws\<close>); \<^verbatim>\<open>db\<close> is what the durable store
  holds when the process starts, \<^verbatim>\<open>ttl\<close> the parsed \<^verbatim>\<open>MEMORY_TTL_SECONDS\<close>, \<^verbatim>\<open>clone\<close>
  the copy the cache library makes.
\<close>

definition startup :: "env \<Rightarrow> bool \<Rightarrow> (string \<Rightarrow> (history \<times> int) option) \<Rightarrow> seconds
                         \<Rightarrow> (json \<Rightarrow> json) \<Rightarrow> store" where
  "startup env ctor_throws db ttl clone =
     (let configured = (mtruthy (penv env ''REDIS_URL'') \<or> mtruthy (penv env ''UPSTASH_REDIS_REST_URL''))
      in \<lparr>usingRedis = (configured \<and> \<not> ctor_throws),
          redis = (configured \<and> \<not> ctor_throws),
          memCache = Map.empty,
          redisDb = db,
          MEMORY_TTL = ttl,
          cache_clone = clone\<rparr>)"

text \<open>A run of the store: each operation with the outside and the clock it meets.\<close>

datatype mem_op = Get int | Put int history

fun run_op :: "world \<Rightarrow> nat \<Rightarrow> store \<Rightarrow> mem_op \<Rightarrow> store \<times> call list" where
  "run_op w now st (Get i) = (case getMemory w st now i of (h, st', cs) \<Rightarrow> (st', cs))"
| "run_op w now st (Put i h) = saveMemory w st now i h"

fun run_ops :: "store \<Rightarrow> (world \<times> nat \<times> mem_op) list \<Rightarrow> store \<times> call list" where
  "run_ops st [] = (st, [])"
| "run_ops st ((w, now, opn) # rest) =
     (case run_op w now st opn of (st', cs) \<Rightarrow>
      (case run_ops st' rest of (st'', cs') \<Rightarrow> (st'', cs @ cs')))"

text \<open>The durable store is asked by an operation and throws.\<close>

fun durable_failure :: "world \<Rightarrow> store \<Rightarrow> mem_op \<Rightarrow> bool" where
  "durable_failure w st (Get i) =
     (usingRedis st \<and> redis st \<and> redis_raises w (RedisGet (memKey i)) \<noteq> None)"
| "durable_failure w st (Put i h) =
     (usingRedis st \<and> redis st \<and> set_raises w st (RedisSet (memKey i) h (MEMORY_TTL st)) \<noteq> None)"

text \<open>What the in-process cache answers for a user: \<^verbatim>\<open>memCache.get(key) || []\<close>.\<close>

definition local_history :: "store \<Rightarrow> nat \<Rightarrow> int \<Rightarrow> history" where
  "local_history st now i = (case cache_get st now (memKey i) of None \<Rightarrow> [] | Some h \<Rightarrow> h)"

text \<open>The store gives a history back as it took it: the cache's copy and the
  serialiser's round trip leave it unchanged (as they do a history whose turns hold
  text).\<close>

definition kept :: "store \<Rightarrow> history \<Rightarrow> bool" where
  "kept st h = (clone_history (cache_clone st) h = h \<and> wire_history h = h)"

text \<open>The configured time-to-live is not negative.\<close>

fun ttl_not_negative :: "seconds \<Rightarrow> bool" where
  "ttl_not_negative NaN = True"
| "ttl_not_negative (Secs n) = (0 \<le> n)"

text \<open>While the flag is on, the client exists and nothing has been written to the
  in-process cache.\<close>

definition cache_unused :: "store \<Rightarrow> bool" where
  "cache_unused st = (usingRedis st \<longrightarrow> redis st \<and> memCache st = Map.empty)"



text \<open>A payload in which \<^verbatim>\<open>callHfApi\<close> finds one of the shapes it parses.\<close>

definition recognized :: "json \<Rightarrow> bool" where
  "recognized d =
     (is_str d
      \<or> (is_arr d \<and> truthy (get_opt (first_elem d) ''generated_text''))
      \<or> truthy (get_opt (Some d) ''generated_text'')
      \<or> (truthy (get_opt (Some d) ''data'') \<and> truthy (first_of (get_opt (Some d) ''data''))))"

section \<open>The resolver of the specification\<close>

text \<open>
  Section 4.3 of the specification: given an ordered list of adapters, invoke each in
  order; on a Failure continue to the next; on a Success stop and return it; if all
  fail return the Failure that no provider is available. An adapter that is not
  available is passed over and makes no call. Beside the two results of the
  specification there is the error that escapes an adapter, which ends the resolution.
\<close>

datatype result = Failure | Success json | Escapes exn

record adapter =
  available :: bool
  invoke :: "result \<times> call list"














section \<open>Vocabulary of the properties\<close>

text \<open>The provider a call goes to.\<close>

datatype provider =
  Durable | HfSpace | HfApi | Replicate | Runway | ElevenLabs | Wiki | Duck | Translator

fun provider_of :: "call \<Rightarrow> provider" where
  "provider_of (RedisGet k) = Durable"
| "provider_of (RedisSet k h t) = Durable"
| "provider_of (HfSpacePost u p) = HfSpace"
| "provider_of (HfApiPost u p) = HfApi"
| "provider_of (ReplicatePost m i) = Replicate"
| "provider_of (RunwayPost u m i) = Runway"
| "provider_of (ElevenLabsPost u t) = ElevenLabs"
| "provider_of (WikiGet q) = Wiki"
| "provider_of (DuckGet q) = Duck"
| "provider_of (Translate t l) = Translator"

text \<open>A message read as the handler reads it: its tokens after the command, the mode,
  and the argument, which only \<^verbatim>\<open>help\<close> may leave empty.\<close>

definition request :: "string \<Rightarrow> string \<Rightarrow> string list \<Rightarrow> string \<Rightarrow> bool" where
  "request msg mode parts rest =
     (parts = parts_of msg \<and> parts \<noteq> [] \<and> mode = toLowerCase (hd parts)
      \<and> rest = trim (join '' '' (drop 1 parts)) \<and> (rest \<noteq> [] \<or> mode = ''help''))"

definition known_modes :: "string list" where
  "known_modes = [''help'', ''chat'', ''wiki'', ''duck'', ''translate'', ''tts'', ''media'', ''replicate'']"

text \<open>An unknown mode or a missing required argument: no token after the command, no
  argument for a mode other than \<^verbatim>\<open>help\<close>, a mode that is none of the eight, a chat
  without a prompt, a media request without its sub-mode or input, a replicate request
  without its variable name or prompt.\<close>

definition malformed :: "env \<Rightarrow> string \<Rightarrow> bool" where
  "malformed env msg =
     (let parts = parts_of msg;
          mode = toLowerCase (hd parts);
          rest = trim (join '' '' (drop 1 parts))
      in parts = []
         \<or> (rest = [] \<and> mode \<noteq> ''help'')
         \<or> mode \<notin> set known_modes
         \<or> (mode = ''chat'' \<and> snd (chat_args env parts rest) = [])
         \<or> (mode = ''media'' \<and> (media_sub parts = None \<or> join '' '' (drop 2 parts) = []))
         \<or> (mode = ''replicate''
             \<and> (part parts 1 = None \<or> part parts 1 = Some [] \<or> join '' '' (drop 2 parts) = [])))"

definition usage_replies :: "reply list" where
  "usage_replies = [usage, need_input, unknown_mode, need_prompt, media_usage, replicate_usage]"

section \<open>Example configurations\<close>

definition env_none :: env where
  "env_none = (\<lambda>k. None)"


definition env_hf :: env where
  "env_hf = (\<lambda>k. if k = ''HF_URL'' then Some ''https://hf.example/models/m''
                  else if k = ''HUGGINGFACE_API_KEY'' then Some ''key'' else None)"


definition world_const :: "json \<Rightarrow> world" where
  "world_const d =
     \<lparr>axios = (\<lambda>c. Returns d), axios_buffer = (\<lambda>c. Returns ''RIFF''),
      redis_raises = (\<lambda>c. None),
      translateLib = (\<lambda>t l. Returns t), t_get = 0, t_save = 0\<rparr>"

definition world_down :: world where
  "world_down =
     \<lparr>axios = (\<lambda>c. Throws (Error ''Network Error'')),
      axios_buffer = (\<lambda>c. Throws (Error ''Network Error'')),
      redis_raises = (\<lambda>c. Some (Error ''Connection is closed.'')),
      translateLib = (\<lambda>t l. Throws (Error ''Too Many Requests'')), t_get = 0, t_save = 0\<rparr>"

text \<open>
  The copy the cache library makes of a JSON value that has no field named
  \<^verbatim>\<open>__proto__\<close>: arrays and objects are copied field by field, and an object's fields
  named like the data properties of \<^verbatim>\<open>Object.prototype\<close> are left out. (A field
  \<^verbatim>\<open>__proto__\<close> is left out too, and may change the prototype of the copy, which is
  not expressed here; the examples hold no such field.)
\<close>

fun clone_json :: "json \<Rightarrow> json"
and clone_elems :: "json list \<Rightarrow> json list"
and clone_fields :: "(string \<times> json) list \<Rightarrow> (string \<times> json) list" where
  "clone_json JNull = JNull"
| "clone_json (JBool b) = JBool b"
| "clone_json (JNum n) = JNum n"
| "clone_json (JStr s) = JStr s"
| "clone_json (JArr xs) = JArr (clone_elems xs)"
| "clone_json (JObj kvs) = JObj (clone_fields kvs)"
| "clone_elems [] = []"
| "clone_elems (x # xs) = clone_json x # clone_elems xs"
| "clone_fields [] = []"
| "clone_fields (kv # kvs) =
     (if fst kv \<in> set (''constructor'' # ''__proto__'' # proto_functions) then clone_fields kvs
      else (fst kv, clone_json (snd kv)) # clone_fields kvs)"

definition store_local :: store where
  "store_local = startup env_none False Map.empty (Secs 10800) clone_json"

definition store_durable :: store where
  "store_durable =
     startup (\<lambda>k. if k = ''REDIS_URL'' then Some ''redis://db.example'' else None) False Map.empty
       (Secs 10800) clone_json"

definition hist1 :: history where
  "hist1 = [\<lparr>role = User, content = JStr ''hi''\<rparr>, \<lparr>role = Assistant, content = JStr ''hello''\<rparr>]"

definition env_all :: env where
  "env_all = (\<lambda>k. if k = ''HF_SPACE_URL'' then Some ''https://space.example/''
                   else if k = ''HF_URL'' then Some ''https://hf.example/models/m''
                   else if k = ''HUGGINGFACE_API_KEY'' then Some ''key''
                   else if k = ''REPLICATE_API_KEY'' then Some ''key''
                   else if k = ''REPLICATE_CHAT_MODEL_LLAMA2'' then Some ''meta/llama-2''
                   else None)"


text \<open>Only the keyed inference API answers.\<close>

definition world_api :: world where
  "world_api =
     \<lparr>axios = (\<lambda>c. case c of
                     HfApiPost u p \<Rightarrow> Returns (JArr [JObj [(''generated_text'', JStr ''4'')]])
                   | _ \<Rightarrow> Throws (Error ''Network Error'')),
      axios_buffer = (\<lambda>c. Throws (Error ''Network Error'')),
      redis_raises = (\<lambda>c. None),
      translateLib = (\<lambda>t l. Returns t), t_get = 0, t_save = 0\<rparr>"

text \<open>Only the managed-compute chat model answers.\<close>

definition world_replicate :: world where
  "world_replicate =
     \<lparr>axios = (\<lambda>c. case c of
                     ReplicatePost m i \<Rightarrow> Returns (JObj [(''output'', JArr [JStr ''four''])])
                   | _ \<Rightarrow> Throws (Error ''Network Error'')),
      axios_buffer = (\<lambda>c. Throws (Error ''Network Error'')),
      redis_raises = (\<lambda>c. None),
      translateLib = (\<lambda>t l. Returns t), t_get = 0, t_save = 0\<rparr>"



text \<open>User 7 has talked before.\<close>

definition store_hist :: store where
  "store_hist = cache_set store_local 0 (memKey 7) hist1"

section \<open>Splitting and joining\<close>

lemma split_sp_nonempty: "split_sp s \<noteq> []"
  by (induction s) (auto split: list.splits)

lemma join_split_sp: "join '' '' (split_sp s) = s"
proof (induction s)
  case Nil
  then show ?case by simp
next
  case (Cons c cs)
  obtain w ws where ws: "split_sp cs = w # ws"
    using split_sp_nonempty [of cs] by (cases "split_sp cs") auto
  show ?case
  proof (cases "c = CHR '' ''")
    case True
    with Cons ws show ?thesis by simp
  next
    case False
    with Cons ws show ?thesis by (cases ws) auto
  qed
qed

lemma hd_split_sp: "hd (split_sp s) = takeWhile (\<lambda>c. c \<noteq> CHR '' '') s"
  by (induction s) (auto simp: split_sp_nonempty split: list.splits)

lemma length_split_sp: "(1 < length (split_sp s)) = (CHR '' '' \<in> set s)"
proof (induction s)
  case Nil
  then show ?case by simp
next
  case (Cons c cs)
  then show ?case
    using split_sp_nonempty [of cs] by (cases "split_sp cs") auto
qed

lemma tl_split_sp:
  "CHR '' '' \<in> set s \<Longrightarrow>
   tl (split_sp s) = split_sp (drop 1 (dropWhile (\<lambda>c. c \<noteq> CHR '' '') s))"
proof (induction s)
  case Nil
  then show ?case by simp
next
  case (Cons c cs)
  show ?case
  proof (cases "c = CHR '' ''")
    case True
    then show ?thesis by simp
  next
    case False
    with Cons.prems have "CHR '' '' \<in> set cs" by simp
    with Cons.IH False show ?thesis
      using split_sp_nonempty [of cs] by (cases "split_sp cs") auto
  qed
qed

lemma join_rest_split_sp:
  assumes "CHR '' '' \<in> set s"
  shows "join '' '' (drop 1 (split_sp s)) = drop 1 (dropWhile (\<lambda>c. c \<noteq> CHR '' '') s)"
proof -
  have "drop 1 (split_sp s) = tl (split_sp s)"
    by (simp add: drop_Suc)
  with tl_split_sp [OF assms] show ?thesis
    by (simp only: join_split_sp)
qed

lemma translate_args_eq:
  "translate_args rest =
     (if CHR '' '' \<in> set rest \<and> length (takeWhile (\<lambda>c. c \<noteq> CHR '' '') rest) \<le> 3
      then (takeWhile (\<lambda>c. c \<noteq> CHR '' '') rest, drop 1 (dropWhile (\<lambda>c. c \<noteq> CHR '' '') rest))
      else (''en'', rest))"
  by (simp add: translate_args_def Let_def hd_split_sp length_split_sp join_rest_split_sp
        del: One_nat_def)


lemma is_falsy_num_of_nat [simp]: "is_falsy (num_of_nat n) = (n = 0)"
  by (simp add: num_of_nat_def)

lemma printed_num_of_nat [simp]: "printed (num_of_nat n) = show_nat n"
  by (simp add: num_of_nat_def)

section \<open>Translation\<close>

text \<open>
  C8. Translation never fails the request: for every text and every target language,
  \<^verbatim>\<open>translateUnofficial\<close> returns a string and does not throw; the string is the
  library's translation when the library resolves, and the input text unchanged when
  the library fails.
\<close>

theorem translate_never_fails:
  "fst (translateUnofficial w txt0 to) =
     Returns (case translateLib w txt0 to of Returns t \<Rightarrow> t | Throws e \<Rightarrow> txt0)"
  by (simp add: translateUnofficial_def split: outcome.splits)

theorem translate_never_fails_witness:
  "fst (translateUnofficial world_down ''selam'' ''en'') = Returns ''selam''"
proof -
  have "translateLib world_down ''selam'' ''en'' = Throws (Error ''Too Many Requests'')"
    by (simp add: world_down_def)
  with translate_never_fails [of world_down "''selam''" "''en''"] show ?thesis
    by (simp only: outcome.case)
qed

text \<open>
  C10. In translate mode the first token of the argument is taken as the target language
  exactly when the argument has more than one token (it contains a space) and that
  first token has at most 3 characters; the text translated is then what follows the
  first space. Otherwise the whole argument is translated to English. The one call the
  handler makes shows both.
\<close>

theorem translate_language_code:
  assumes "parts_of msg = m # ps"
      and "toLowerCase m = ''translate''"
      and "rest = trim (join '' '' ps)"
      and "rest \<noteq> []"
  shows "snd (snd (handler env w st uid msg)) =
           [if CHR '' '' \<in> set rest \<and> length (takeWhile (\<lambda>c. c \<noteq> CHR '' '') rest) \<le> 3
            then Translate (drop 1 (dropWhile (\<lambda>c. c \<noteq> CHR '' '') rest))
                           (takeWhile (\<lambda>c. c \<noteq> CHR '' '') rest)
            else Translate rest ''en'']"
proof -
  have "dispatch env w st uid (m # ps) ''translate'' rest =
          (case translate_mode w rest of (r, cs) \<Rightarrow> (r, st, cs))"
    by (simp add: dispatch_def)
  moreover have "snd (translate_mode w rest) =
          [case translate_args rest of (to, t) \<Rightarrow> Translate t to]"
    by (simp add: translate_mode_def translateUnofficial_def split: prod.splits outcome.splits)
  ultimately have "snd (snd (handler env w st uid msg)) =
          [case translate_args rest of (to, t) \<Rightarrow> Translate t to]"
    using assms
    by (simp add: handler_def Let_def split: prod.splits outcome.splits)
  then show ?thesis
    by (simp add: translate_args_eq del: One_nat_def)
qed

theorem translate_language_code_witness:
  "snd (snd (handler env_none (world_const JNull) store_local 7 ''/ai translate how are you'')) =
     [Translate ''are you'' ''how'']
   \<and> snd (snd (handler env_none (world_const JNull) store_local 7 ''/ai translate am'')) =
     [Translate ''am'' ''en'']"
proof -
  have a1: "parts_of ''/ai translate how are you'' = ''translate'' # [''how'', ''are'', ''you'']"
    by code_simp
  have a2: "parts_of ''/ai translate am'' = ''translate'' # [''am'']"
    by code_simp
  have b: "toLowerCase ''translate'' = ''translate''"
    by code_simp
  have c1: "''how are you'' = trim (join '' '' [''how'', ''are'', ''you''])"
    by code_simp
  have c2: "''am'' = trim (join '' '' [''am''])"
    by code_simp
  have d1: "''how are you'' \<noteq> []" and d2: "''am'' \<noteq> []"
    by simp_all
  from translate_language_code [OF a1 b c1 d1, of env_none "world_const JNull" store_local 7]
       translate_language_code [OF a2 b c2 d2, of env_none "world_const JNull" store_local 7]
  show ?thesis by simp
qed

section \<open>The keyed inference API's fallback\<close>

text \<open>
  C7, as the claim states it, fails: on a payload with none of the parsed shapes, here
  the empty object, \<^verbatim>\<open>callHfApi\<close> does not fail; it returns the payload's serialisation.
\<close>

theorem hf_api_unrecognized_counterexample:
  "\<not> recognized (JObj [])
   \<and> fst (callHfApi env_hf (world_const (JObj [])) ''user: hi'' (Str ''https://hf.example/models/m''))
       = Returns (JStr ''{}'')"
  by (simp add: recognized_def callHfApi_def hf_api_parse_def truthy_val_def env_hf_def
        world_const_def penv_def bind_def)

text \<open>
  C7, amended. When the adapter is configured and the upstream call returns a payload
  with none of the parsed shapes, \<^verbatim>\<open>callHfApi\<close> returns, as a success, the JSON
  serialisation of the raw payload cut to its first 4000 characters.
\<close>

theorem hf_api_unrecognized:
  assumes "mtruthy modelUrl"
      and "mtruthy (penv env ''HUGGINGFACE_API_KEY'')"
      and "axios w (HfApiPost modelUrl prompt) = Returns d"
      and "\<not> recognized d"
  shows "callHfApi env w prompt modelUrl =
           (Returns (JStr (take 4000 (stringify d))), [HfApiPost modelUrl prompt])"
proof -
  from assms(1) have url: "modelUrl \<noteq> Undefined"
    by auto
  from assms(4) have "hf_api_parse d = JStr (take 4000 (stringify d))"
    by (auto simp: recognized_def hf_api_parse_def truthy_val_def Let_def)
  with assms(1-3) url show ?thesis
    by (simp add: callHfApi_def Let_def bind_def)
qed

theorem hf_api_unrecognized_witness:
  "callHfApi env_hf
       (world_const (JObj [(''error'', JStr ''loading''),
                           (''estimated_time'', JNum (Num False ''20.5'' True)),
                           (''seen'', JNum (Num False ''1e+21'' True))]))
       ''user: hi'' (Str ''https://hf.example/models/m'') =
     (Returns (JStr (CHR 0x7B # quote ''error'' @ '':'' @ quote ''loading'' @ '','' @
                     quote ''estimated_time'' @ '':20.5,'' @ quote ''seen'' @ '':1e+21}'')),
      [HfApiPost (Str ''https://hf.example/models/m'') ''user: hi''])"
proof -
  let ?d = "JObj [(''error'', JStr ''loading''),
                  (''estimated_time'', JNum (Num False ''20.5'' True)),
                  (''seen'', JNum (Num False ''1e+21'' True))]"
  have a: "mtruthy (Str ''https://hf.example/models/m'')"
    by simp
  have b: "mtruthy (penv env_hf ''HUGGINGFACE_API_KEY'')"
    by (simp add: env_hf_def penv_def)
  have c: "axios (world_const ?d) (HfApiPost (Str ''https://hf.example/models/m'') ''user: hi'') =
           Returns ?d"
    by (simp add: world_const_def)
  have d: "\<not> recognized ?d"
    by (simp add: recognized_def)
  have s: "take 4000 (stringify ?d) =
             CHR 0x7B # quote ''error'' @ '':'' @ quote ''loading'' @ '','' @
             quote ''estimated_time'' @ '':20.5,'' @ quote ''seen'' @ '':1e+21}''"
    by code_simp
  from hf_api_unrecognized [OF a b c d] s show ?thesis
    by (simp only:)
qed

section \<open>The memory store\<close>

lemma getMemory_local:
  "\<not> usingRedis st \<Longrightarrow> getMemory w st now i = (local_history st now i, st, [])"
  by (simp add: getMemory_def local_history_def)

lemma saveMemory_local:
  "\<not> usingRedis st \<Longrightarrow> saveMemory w st now i h = (cache_set st now (memKey i) h, [])"
  by (simp add: saveMemory_def)

lemma usingRedis_cache_set [simp]: "usingRedis (cache_set st now key h) = usingRedis st"
  by (simp add: cache_set_def)

lemma run_op_local:
  "\<not> usingRedis st \<Longrightarrow> snd (run_op w now st opn) = [] \<and> \<not> usingRedis (fst (run_op w now st opn))"
  by (cases opn) (simp_all add: getMemory_local saveMemory_local)

lemma run_ops_local:
  "\<not> usingRedis st \<Longrightarrow> snd (run_ops st ops) = [] \<and> \<not> usingRedis (fst (run_ops st ops))"
proof (induction ops arbitrary: st)
  case Nil
  then show ?case by simp
next
  case (Cons x ops)
  obtain w now opn where x: "x = (w, now, opn)"
    by (cases x) auto
  from Cons.prems have step: "snd (run_op w now st opn) = []" "\<not> usingRedis (fst (run_op w now st opn))"
    using run_op_local [of st w now opn] by simp_all
  from Cons.IH [OF step(2)] step(1) x show ?case
    by (cases "run_op w now st opn"; cases "run_ops (fst (run_op w now st opn)) ops") simp
qed

lemma run_op_demotes:
  "durable_failure w st opn \<Longrightarrow> \<not> usingRedis (fst (run_op w now st opn))"
  by (cases opn) (auto simp: getMemory_def saveMemory_def Let_def split: option.splits)

text \<open>
  C2. Demotion is one-way. Once a get or a put has met a failure of the durable store,
  the flag is off, and in every state that any later run of gets and puts reaches,
  whatever the outside would then answer, no call goes to the durable store and every
  get and put is served by the in-process cache.
\<close>

theorem demotion_one_way:
  assumes "durable_failure w st opn"
      and "st' = fst (run_op w now st opn)"
      and "st'' = fst (run_ops st' ops)"
  shows "\<not> usingRedis st'
         \<and> snd (run_ops st' ops) = []
         \<and> getMemory w' st'' now' i = (local_history st'' now' i, st'', [])
         \<and> saveMemory w' st'' now' i h = (cache_set st'' now' (memKey i) h, [])"
proof -
  from assms(1,2) have d: "\<not> usingRedis st'"
    by (simp add: run_op_demotes)
  from run_ops_local [OF d, of ops] assms(3) have "snd (run_ops st' ops) = []" "\<not> usingRedis st''"
    by simp_all
  with d show ?thesis
    by (simp add: getMemory_local saveMemory_local)
qed

theorem demotion_one_way_witness:
  "durable_failure world_down store_durable (Get 7)
   \<and> \<not> usingRedis (fst (run_op world_down 0 store_durable (Get 7)))
   \<and> snd (run_ops (fst (run_op world_down 0 store_durable (Get 7)))
            [(world_const JNull, 1, Put 7 hist1)]) = []
   \<and> getMemory (world_const JNull)
        (fst (run_ops (fst (run_op world_down 0 store_durable (Get 7)))
               [(world_const JNull, 1, Put 7 hist1)])) 2 7 =
      (hist1,
       fst (run_ops (fst (run_op world_down 0 store_durable (Get 7)))
             [(world_const JNull, 1, Put 7 hist1)]), [])"
proof -
  let ?st' = "fst (run_op world_down 0 store_durable (Get 7))"
  let ?st'' = "fst (run_ops ?st' [(world_const JNull, 1, Put 7 hist1)])"
  have f: "durable_failure world_down store_durable (Get 7)"
    by (simp add: world_down_def store_durable_def startup_def penv_def)
  have l: "local_history ?st'' 2 7 = hist1"
    by (simp add: local_history_def cache_get_def cache_set_def getMemory_def saveMemory_def
          world_down_def store_durable_def startup_def penv_def Let_def livetime_def
          clone_history_def hist1_def)
  from demotion_one_way [OF f refl refl, of 0 "[(world_const JNull, 1, Put 7 hist1)]"
         "world_const JNull" 2 7 hist1] f l
  show ?thesis by simp
qed

lemma cache_unused_startup: "cache_unused (startup env ctor_throws db ttl clone)"
  by (simp add: cache_unused_def startup_def Let_def)

lemma cache_unused_getMemory:
  "cache_unused st \<Longrightarrow> cache_unused (fst (snd (getMemory w st now i)))"
  by (auto simp: cache_unused_def getMemory_def Let_def split: option.splits)

lemma cache_unused_saveMemory:
  "cache_unused st \<Longrightarrow> cache_unused (fst (saveMemory w st now i h))"
  by (auto simp: cache_unused_def saveMemory_def Let_def cache_set_def split: option.splits)

lemma cache_get_after_set:
  assumes "ttl_not_negative (MEMORY_TTL st)"
      and "clone_history (cache_clone st) h = h"
  shows "cache_get (cache_set st now key h) now key = Some h"
  using assms
  by (cases "MEMORY_TTL st") (simp_all add: cache_get_def cache_set_def livetime_def)

lemma cache_get_expired:
  assumes "MEMORY_TTL st = Secs n"
      and "0 < n"
      and "int now + n * 1000 < int later"
  shows "cache_get (cache_set st now key h) later key = None"
  using assms by (simp add: cache_get_def cache_set_def livetime_def)

lemma put_then_get:
  assumes "st' = fst (saveMemory w st now i h)"
      and "ttl_not_negative (MEMORY_TTL st)"
      and "kept st h"
      and "\<not> (usingRedis st' \<and> redis st' \<and> redis_raises w' (RedisGet (memKey i)) \<noteq> None)"
  shows "fst (getMemory w' st' now i) = h"
proof (cases "usingRedis st \<and> redis st")
  case False
  with assms(1) have st': "st' = cache_set st now (memKey i) h"
    by (auto simp: saveMemory_def Let_def)
  from False have "\<not> (usingRedis st' \<and> redis st')"
    by (auto simp: st' cache_set_def)
  moreover from assms(2,3) have "cache_get st' now (memKey i) = Some h"
    unfolding st' by (intro cache_get_after_set) (simp_all add: kept_def)
  ultimately show ?thesis
    by (auto simp: getMemory_def Let_def)
next
  case True
  show ?thesis
  proof (cases "set_raises w st (RedisSet (memKey i) h (MEMORY_TTL st))")
    case (Some e)
    with True assms(1) have st': "st' = cache_set (st\<lparr>usingRedis := False\<rparr>) now (memKey i) h"
      by (simp add: saveMemory_def Let_def)
    from assms(2,3) have "cache_get st' now (memKey i) = Some h"
      unfolding st' by (intro cache_get_after_set) (simp_all add: kept_def)
    then show ?thesis
      by (simp add: getMemory_def Let_def st')
  next
    case None
    then obtain n where ttl: "MEMORY_TTL st = Secs n" "0 < n"
      by (cases "MEMORY_TTL st") (auto simp: set_raises_def split: if_splits)
    from None True assms(1)
    have st': "st' = st\<lparr>redisDb := (redisDb st)(memKey i \<mapsto>
                            (wire_history h, redis_expiry (MEMORY_TTL st) now))\<rparr>"
      by (simp add: saveMemory_def Let_def)
    with True assms(4) have "redis_raises w' (RedisGet (memKey i)) = None"
      by simp
    with True ttl assms(3) show ?thesis
      by (simp add: getMemory_def Let_def st' redis_get_def redis_expiry_def kept_def)
  qed
qed

lemma get_after_ttl:
  assumes "st' = fst (saveMemory w st now i h)"
      and "cache_unused st"
      and "MEMORY_TTL st = Secs n"
      and "0 < n"
      and "int now + n * 1000 < int later"
  shows "fst (getMemory w' st' later i) = []"
proof (cases "usingRedis st \<and> redis st")
  case False
  with assms(1) have st': "st' = cache_set st now (memKey i) h"
    by (auto simp: saveMemory_def Let_def)
  from False have "\<not> (usingRedis st' \<and> redis st')"
    by (auto simp: st' cache_set_def)
  moreover have "cache_get st' later (memKey i) = None"
    unfolding st' using assms(3-5) by (rule cache_get_expired)
  ultimately show ?thesis
    by (auto simp: getMemory_def Let_def)
next
  case True
  show ?thesis
  proof (cases "set_raises w st (RedisSet (memKey i) h (MEMORY_TTL st))")
    case (Some e)
    with True assms(1) have st': "st' = cache_set (st\<lparr>usingRedis := False\<rparr>) now (memKey i) h"
      by (simp add: saveMemory_def Let_def)
    have "cache_get st' later (memKey i) = None"
      unfolding st' using assms(3-5) by (intro cache_get_expired) simp_all
    then show ?thesis
      by (simp add: getMemory_def Let_def st')
  next
    case None
    from None True assms(1)
    have st': "st' = st\<lparr>redisDb := (redisDb st)(memKey i \<mapsto>
                            (wire_history h, redis_expiry (MEMORY_TTL st) now))\<rparr>"
      by (simp add: saveMemory_def Let_def)
    from True assms(2) have "memCache st = Map.empty"
      by (simp add: cache_unused_def)
    with True assms(3-5) show ?thesis
      by (simp add: getMemory_def Let_def st' redis_get_def redis_expiry_def cache_get_def
            split: option.splits)
  qed
qed

text \<open>
  C4, as the claim states it, fails: the durable store takes a put and then fails on
  the get that follows at once; the get is answered by the in-process cache, which is
  empty, not with the history that was put.
\<close>

theorem memory_put_get_counterexample:
  "\<not> (fst (getMemory world_down (fst (saveMemory (world_const JNull) store_durable 0 7 hist1)) 0 7)
        = hist1)"
  by (simp add: getMemory_def saveMemory_def set_raises_def cache_get_def Let_def
        world_down_def world_const_def store_durable_def startup_def penv_def hist1_def)

text \<open>
  Three more inputs at which the claim fails, one for each further condition of the
  amended claim. With a negative time-to-live the cache's entry is dead at once. The
  cache's copy of a history can differ from the history: a field named \<^verbatim>\<open>toString\<close> is
  left out. With a time-to-live of 0 the entry never dies.
\<close>

lemma put_get_negative_ttl:
  "fst (getMemory (world_const JNull)
         (fst (saveMemory (world_const JNull)
                (startup env_none False Map.empty (Secs (- 1)) clone_json) 5000 7 hist1)) 5000 7) = []"
  by (simp add: getMemory_def saveMemory_def cache_get_def cache_set_def livetime_def Let_def
        startup_def env_none_def penv_def object_proto_def proto_functions_def)

lemma put_get_copy_differs:
  "fst (getMemory (world_const JNull)
         (fst (saveMemory (world_const JNull) store_local 5000 7
                [\<lparr>role = Assistant, content = JObj [(''toString'', JStr ''x'')]\<rparr>])) 5000 7) =
     [\<lparr>role = Assistant, content = JObj []\<rparr>]"
  by (simp add: getMemory_def saveMemory_def cache_get_def cache_set_def livetime_def Let_def
        store_local_def startup_def env_none_def penv_def object_proto_def proto_functions_def
        clone_history_def)

lemma get_zero_ttl_never_expires:
  "fst (getMemory (world_const JNull)
         (fst (saveMemory (world_const JNull)
                (startup env_none False Map.empty (Secs 0) clone_json) 5000 7 hist1)) later 7) = hist1"
  by (simp add: getMemory_def saveMemory_def cache_get_def cache_set_def livetime_def Let_def
        startup_def env_none_def penv_def object_proto_def proto_functions_def
        clone_history_def hist1_def)

text \<open>
  C4, amended. A put followed at once by a get of the same identifier returns the
  history that was put, when the configured time-to-live is not negative, the store's
  copying and encoding leave the history unchanged (as they do a history of text), and
  the durable store does not take the put and then fail on the get. When the
  time-to-live is positive (and, as in every state the module reaches, the in-process
  cache is untouched while the flag of the durable store is on), a get later than the
  time-to-live after the put, with no put in between, returns the empty history.
\<close>

theorem memory_put_get:
  assumes "st' = fst (saveMemory w st now i h)"
  shows "(ttl_not_negative (MEMORY_TTL st) \<and> kept st h
            \<and> \<not> (usingRedis st' \<and> redis st' \<and> redis_raises w' (RedisGet (memKey i)) \<noteq> None)
            \<longrightarrow> fst (getMemory w' st' now i) = h)
         \<and> (cache_unused st \<and> MEMORY_TTL st = Secs n \<and> 0 < n \<and> int now + n * 1000 < int later
            \<longrightarrow> fst (getMemory w'' st' later i) = [])"
  using put_then_get [OF assms, of w'] get_after_ttl [OF assms, of n later w'']
  by blast

theorem memory_put_get_witness:
  "fst (getMemory (world_const JNull)
         (fst (saveMemory (world_const JNull) store_durable 5000 7 hist1)) 5000 7) = hist1
   \<and> fst (getMemory (world_const JNull)
           (fst (saveMemory (world_const JNull) store_durable 5000 7 hist1)) 10805001 7) = []
   \<and> fst (getMemory (world_const JNull)
           (fst (saveMemory (world_const JNull) store_local 5000 7 hist1)) 5000 7) = hist1
   \<and> fst (getMemory (world_const JNull)
           (fst (saveMemory (world_const JNull) store_local 5000 7 hist1)) 10805001 7) = []"
proof -
  let ?w = "world_const JNull"
  let ?d = "fst (saveMemory ?w store_durable 5000 7 hist1)"
  let ?l = "fst (saveMemory ?w store_local 5000 7 hist1)"
  have k: "kept store_durable hist1" "kept store_local hist1"
    by (simp_all add: kept_def clone_history_def wire_history_def hist1_def store_durable_def
          store_local_def startup_def Let_def)
  have t: "ttl_not_negative (MEMORY_TTL store_durable)" "ttl_not_negative (MEMORY_TTL store_local)"
    "MEMORY_TTL store_durable = Secs 10800" "MEMORY_TTL store_local = Secs 10800"
    by (simp_all add: store_durable_def store_local_def startup_def Let_def)
  have u: "cache_unused store_durable" "cache_unused store_local"
    by (simp_all add: store_durable_def store_local_def cache_unused_startup)
  have up: "redis_raises ?w (RedisGet (memKey 7)) = None"
    by (simp add: world_const_def)
  have late: "int 5000 + 10800 * 1000 < int 10805001" "(0::int) < 10800"
    by simp_all
  from memory_put_get [OF refl, where w = ?w and st = store_durable and now = 5000
         and i = 7 and h = hist1 and w' = ?w and n = 10800 and later = 10805001 and w'' = ?w]
       k t u up late
  have d: "fst (getMemory ?w ?d 5000 7) = hist1" "fst (getMemory ?w ?d 10805001 7) = []"
    by blast+
  from memory_put_get [OF refl, where w = ?w and st = store_local and now = 5000
         and i = 7 and h = hist1 and w' = ?w and n = 10800 and later = 10805001 and w'' = ?w]
       k t u up late
  have l: "fst (getMemory ?w ?l 5000 7) = hist1" "fst (getMemory ?w ?l 10805001 7) = []"
    by blast+
  from d l show ?thesis
    by blast
qed

text \<open>At the very end of its time the entry is still given: the empty answer a
  millisecond later is the expiry, not a failure.\<close>

lemma get_before_ttl:
  "fst (getMemory (world_const JNull)
         (fst (saveMemory (world_const JNull) store_durable 5000 7 hist1)) 10805000 7) = hist1"
  by (simp add: getMemory_def saveMemory_def set_raises_def redis_get_def redis_expiry_def
        Let_def world_const_def store_durable_def startup_def penv_def wire_history_def hist1_def)

section \<open>Reading a request\<close>

lemma handler_request:
  assumes "request msg mode parts rest"
  shows "handler env w st uid msg =
           (case dispatch env w st uid parts mode rest of
              (Returns r, st', cs) \<Rightarrow> (r, st', cs)
            | (Throws e, st', cs) \<Rightarrow> (Text (withPrefix (''Error: '' @ err_text e)), st', cs))"
  using assms by (auto simp: request_def handler_def Let_def)

lemma chat_no_prompt:
  "snd (chat_args env parts rest) = [] \<Longrightarrow> chat env w st uid parts rest = (Returns need_prompt, st, [])"
  by (cases "chat_args env parts rest") (simp add: chat_def)

text \<open>
  C9. For every /ai command with an unknown mode or a missing required argument, the
  handler answers with one of its fixed banner-prefixed usage messages, makes no call
  at all (no adapter, no resolver, no memory access) and leaves the module's state
  as it was.
\<close>

theorem malformed_request:
  assumes "malformed env msg"
  shows "\<exists>u. handler env w st uid msg = (Text (withPrefix u), st, [])
             \<and> Text (withPrefix u) \<in> set usage_replies"
proof -
  let ?parts = "parts_of msg"
  let ?mode = "toLowerCase (hd ?parts)"
  let ?rest = "trim (join '' '' (drop 1 ?parts))"
  have fixed: "\<And>r. r \<in> set usage_replies \<Longrightarrow> \<exists>u. r = Text (withPrefix u)"
    by (auto simp: usage_replies_def usage_def need_input_def unknown_mode_def need_prompt_def
          media_usage_def replicate_usage_def)
  have "\<exists>r \<in> set usage_replies. handler env w st uid msg = (r, st, [])"
  proof (cases "?parts = []")
    case True
    then show ?thesis by (simp add: handler_def usage_replies_def)
  next
    case parts: False
    show ?thesis
    proof (cases "?rest = [] \<and> ?mode \<noteq> ''help''")
      case True
      with parts show ?thesis by (simp add: handler_def Let_def usage_replies_def)
    next
      case False
      with parts have req: "request msg ?mode ?parts ?rest"
        by (auto simp: request_def)
      from assms parts False
      consider (unknown) "?mode \<notin> set known_modes"
        | (chat) "?mode = ''chat''" "snd (chat_args env ?parts ?rest) = []"
        | (media) "?mode = ''media''" "media_sub ?parts = None \<or> join '' '' (drop 2 ?parts) = []"
        | (replicate) "?mode = ''replicate''"
            "part ?parts 1 = None \<or> part ?parts 1 = Some [] \<or> join '' '' (drop 2 ?parts) = []"
        unfolding malformed_def Let_def by blast
      then have "\<exists>r \<in> set usage_replies. dispatch env w st uid ?parts ?mode ?rest = (Returns r, st, [])"
      proof cases
        case unknown
        then show ?thesis
          by (simp add: dispatch_def known_modes_def usage_replies_def)
      next
        case chat
        then show ?thesis
          by (simp add: dispatch_def chat_no_prompt usage_replies_def)
      next
        case media
        then show ?thesis
          by (auto simp: dispatch_def media_def Let_def usage_replies_def split: option.splits)
      next
        case replicate
        then show ?thesis
          by (auto simp: dispatch_def replicate_mode_def Let_def usage_replies_def split: option.splits)
      qed
      then show ?thesis
        by (auto simp: handler_request [OF req])
    qed
  qed
  with fixed show ?thesis by blast
qed

theorem malformed_request_witness:
  "malformed env_hf ''/ai frobnicate now''
   \<and> (\<exists>u. handler env_hf world_down store_local 7 ''/ai frobnicate now'' =
              (Text (withPrefix u), store_local, [])
            \<and> Text (withPrefix u) \<in> set usage_replies)
   \<and> malformed env_hf ''/ai chat llama2''
   \<and> (\<exists>u. handler env_hf world_down store_local 7 ''/ai chat llama2'' =
              (Text (withPrefix u), store_local, [])
            \<and> Text (withPrefix u) \<in> set usage_replies)
   \<and> malformed env_hf ''/ai media t2i''
   \<and> (\<exists>u. handler env_hf world_down store_local 7 ''/ai media t2i'' =
              (Text (withPrefix u), store_local, [])
            \<and> Text (withPrefix u) \<in> set usage_replies)"
proof -
  have m1: "malformed env_hf ''/ai frobnicate now''"
    by code_simp
  have m2: "malformed env_hf ''/ai chat llama2''"
    by code_simp
  have m3: "malformed env_hf ''/ai media t2i''"
    by code_simp
  from m1 m2 m3
       malformed_request [OF m1, of world_down store_local 7]
       malformed_request [OF m2, of world_down store_local 7]
       malformed_request [OF m3, of world_down store_local 7]
  show ?thesis by blast
qed

section \<open>The chat resolution\<close>

lemma try_space_snd:
  "snd (try_space w p (u # us)) =
     HfSpacePost u p #
       (if (\<exists>s. bind (axios w (HfSpacePost u p)) space_body = Returns (Some s)) then []
        else snd (try_space w p us))"
  by (auto simp: Let_def split: outcome.splits option.splits prod.splits)

lemma try_space_inputs: "c \<in> set (snd (try_space w p urls)) \<Longrightarrow> \<exists>u. c = HfSpacePost u p"
proof (induction urls)
  case Nil
  then show ?case by simp
next
  case (Cons u us)
  then show ?case
    by (auto simp: try_space_snd simp del: try_space.simps split: if_splits)
qed

lemma chat_space_snd:
  "snd (chat_space env w ctx) =
     (case penv env ''HF_SPACE_URL'' of
        Str u \<Rightarrow>
          (if u = [] then []
           else snd (try_space w ctx [strip_slash u @ ''/run/predict'',
                                      strip_slash u @ ''/api/predict'', strip_slash u]))
      | _ \<Rightarrow> [])"
  by (simp add: chat_space_def callHfSpace_def Let_def
        split: prod.splits outcome.splits mapval.splits del: try_space.simps)

lemma chat_space_inputs: "c \<in> set (snd (chat_space env w ctx)) \<Longrightarrow> \<exists>u. c = HfSpacePost u ctx"
  by (cases "penv env ''HF_SPACE_URL''")
     (auto simp: chat_space_snd dest: try_space_inputs simp del: try_space.simps split: if_splits)

lemma chat_space_calls: "set (map provider_of (snd (chat_space env w ctx))) \<subseteq> {HfSpace}"
  using chat_space_inputs by fastforce

lemma chat_api_inputs: "c \<in> set (snd (chat_api env w ctx mk a)) \<Longrightarrow> \<exists>u. c = HfApiPost u ctx"
  by (auto simp: chat_api_def callHfApi_def Let_def split: prod.splits outcome.splits if_splits)

lemma chat_api_calls: "set (map provider_of (snd (chat_api env w ctx mk a))) \<subseteq> {HfApi}"
  using chat_api_inputs by fastforce

lemma chat_replicate_inputs:
  "c \<in> set (snd (chat_replicate env w prompt mk a)) \<Longrightarrow>
   \<exists>m. c = ReplicatePost m (JObj [(''prompt'', JStr prompt)])"
  by (auto simp: chat_replicate_def callReplicate_def Let_def
        split: prod.splits outcome.splits if_splits)

lemma chat_replicate_calls: "set (map provider_of (snd (chat_replicate env w prompt mk a))) \<subseteq> {Replicate}"
  using chat_replicate_inputs by fastforce

lemma chat_web_calls:
  "snd (chat_web w prompt a) = (if truthy_json a then [] else [WikiGet prompt, DuckGet prompt])"
  by (simp add: chat_web_def wikiSummary_def duckDuck_def Let_def)










subsection \<open>The chat branch and the resolver of the specification\<close>













section \<open>The chat branch of the handler\<close>

lemma getMemory_calls: "c \<in> set (snd (snd (getMemory w st now i))) \<Longrightarrow> provider_of c = Durable"
  by (auto simp: getMemory_def Let_def split: option.splits if_splits)

lemma saveMemory_calls: "c \<in> set (snd (saveMemory w st now i h)) \<Longrightarrow> provider_of c = Durable"
  by (auto simp: saveMemory_def Let_def split: option.splits if_splits)

lemma chat_resolve_inputs:
  assumes "c \<in> set (snd (chat_resolve env w ctx prompt mk))"
  shows "(\<exists>u. c = HfSpacePost u ctx) \<or> (\<exists>u. c = HfApiPost u ctx)
         \<or> (\<exists>m. c = ReplicatePost m (JObj [(''prompt'', JStr prompt)]))
         \<or> c = WikiGet prompt \<or> c = DuckGet prompt"
proof -
  obtain a1 c1 where s1: "chat_space env w ctx = (a1, c1)"
    by (cases "chat_space env w ctx")
  obtain a2 c2 where s2: "chat_api env w ctx mk a1 = (a2, c2)"
    by (cases "chat_api env w ctx mk a1")
  obtain a3 c3 where s3: "chat_replicate env w prompt mk a2 = (a3, c3)"
    by (cases "chat_replicate env w prompt mk a2")
  obtain r c4 where s4: "chat_web w prompt a3 = (r, c4)"
    by (cases "chat_web w prompt a3")
  from assms have "c \<in> set c1 \<or> c \<in> set c2 \<or> c \<in> set c3 \<or> c \<in> set c4"
    by (auto simp: chat_resolve_def s1 s2 s3 s4)
  moreover have "c \<in> set c1 \<Longrightarrow> \<exists>u. c = HfSpacePost u ctx"
    using chat_space_inputs [of c env w ctx] by (simp add: s1)
  moreover have "c \<in> set c2 \<Longrightarrow> \<exists>u. c = HfApiPost u ctx"
    using chat_api_inputs [of c env w ctx mk a1] by (simp add: s2)
  moreover have "c \<in> set c3 \<Longrightarrow> \<exists>m. c = ReplicatePost m (JObj [(''prompt'', JStr prompt)])"
    using chat_replicate_inputs [of c env w prompt mk a2] by (simp add: s3)
  moreover have "c \<in> set c4 \<Longrightarrow> c = WikiGet prompt \<or> c = DuckGet prompt"
    using chat_web_calls [of w prompt a3] by (auto simp: s4 split: if_splits)
  ultimately show ?thesis by blast
qed

lemma chat_run:
  assumes "chat_args env parts rest = (mk, prompt)"
      and "prompt \<noteq> []"
      and "getMemory w st (t_get w) uid = (mem0, st1, c1)"
      and "contextStr (mem0 @ [\<lparr>role = User, content = JStr prompt\<rparr>]) = Returns ctx"
  shows "chat env w st uid parts rest =
           (case chat_resolve env w ctx prompt mk of
              (Throws e, c2) \<Rightarrow> (Throws e, st1, c1 @ c2)
            | (Returns a, c2) \<Rightarrow>
                (bind (js_String (Some a)) (\<lambda>s. Returns (Text (withPrefix s))),
                 fst (saveMemory w st1 (t_save w) uid
                        (mem0 @ [\<lparr>role = User, content = JStr prompt\<rparr>,
                                 \<lparr>role = Assistant, content = a\<rparr>])),
                 c1 @ c2 @
                 snd (saveMemory w st1 (t_save w) uid
                        (mem0 @ [\<lparr>role = User, content = JStr prompt\<rparr>,
                                 \<lparr>role = Assistant, content = a\<rparr>]))))"
  using assms by (simp add: chat_def Let_def split: prod.splits outcome.splits)

lemma handler_chat:
  assumes "request msg ''chat'' parts rest"
  shows "handler env w st uid msg =
           (case chat env w st uid parts rest of
              (Returns r, st', cs) \<Rightarrow> (r, st', cs)
            | (Throws e, st', cs) \<Rightarrow> (Text (withPrefix (''Error: '' @ err_text e)), st', cs))"
  by (simp add: handler_request [OF assms] dispatch_def)




text \<open>
  C6, as the claim states it, fails: with no text-generation provider configured, the
  lookups that synthesise the answer are invoked with the bare new prompt, while the
  transcript of the conversation has three turns.
\<close>

theorem chat_adapter_inputs_counterexample:
  "snd (snd (handler env_none (world_const JNull) store_hist 7 ''/ai chat again'')) =
     [WikiGet ''again'', DuckGet ''again'']
   \<and> fst (getMemory (world_const JNull) store_hist 0 7) = hist1
   \<and> contextStr (hist1 @ [\<lparr>role = User, content = JStr ''again''\<rparr>]) =
       Returns (''user: hi'' @ nl @ ''assistant: hello'' @ nl @ ''user: again'')"
proof -
  have "snd (snd (handler env_none (world_const JNull) store_hist 7 ''/ai chat again'')) =
          [WikiGet ''again'', DuckGet ''again'']"
    by code_simp
  moreover have "fst (getMemory (world_const JNull) store_hist 0 7) = hist1"
    by code_simp
  moreover have "contextStr (hist1 @ [\<lparr>role = User, content = JStr ''again''\<rparr>]) =
          Returns (''user: hi'' @ nl @ ''assistant: hello'' @ nl @ ''user: again'')"
    by code_simp
  ultimately show ?thesis by blast
qed

text \<open>
  C6, amended. During a chat resolution, every call to the hosted-inference space and
  to the keyed inference API carries the concatenated transcript (the turns read from
  memory followed by the new user turn); every call to the managed-compute chat model,
  and the encyclopedia and search lookups of the synthesised answer, carry the bare new
  prompt.
\<close>

theorem chat_adapter_inputs:
  assumes "request msg ''chat'' parts rest"
      and "chat_args env parts rest = (mk, prompt)"
      and "prompt \<noteq> []"
      and "getMemory w st (t_get w) uid = (mem0, st1, c1)"
      and "contextStr (mem0 @ [\<lparr>role = User, content = JStr prompt\<rparr>]) = Returns ctx"
      and "c \<in> set (snd (snd (handler env w st uid msg)))"
  shows "(provider_of c = HfSpace \<longrightarrow> (\<exists>u. c = HfSpacePost u ctx))
         \<and> (provider_of c = HfApi \<longrightarrow> (\<exists>u. c = HfApiPost u ctx))
         \<and> (provider_of c = Replicate \<longrightarrow> (\<exists>m. c = ReplicatePost m (JObj [(''prompt'', JStr prompt)])))
         \<and> (provider_of c = Wiki \<longrightarrow> c = WikiGet prompt)
         \<and> (provider_of c = Duck \<longrightarrow> c = DuckGet prompt)"
proof -
  obtain r c2 where res: "chat_resolve env w ctx prompt mk = (r, c2)"
    by (cases "chat_resolve env w ctx prompt mk")
  have "set (snd (snd (chat env w st uid parts rest))) \<subseteq>
          set c1 \<union> set c2 \<union>
          (\<Union>h. set (snd (saveMemory w st1 (t_save w) uid h)))"
    by (cases r) (auto simp: chat_run [OF assms(2-5)] res)
  moreover have "snd (snd (handler env w st uid msg)) = snd (snd (chat env w st uid parts rest))"
    by (simp add: handler_chat [OF assms(1)] split: prod.splits outcome.splits)
  ultimately consider (mem) "c \<in> set c1"
    | (res) "c \<in> set c2"
    | (save) h where "c \<in> set (snd (saveMemory w st1 (t_save w) uid h))"
    using assms(6) by auto
  then show ?thesis
  proof cases
    case mem
    with getMemory_calls [of c w st "t_get w" uid] assms(4) have "provider_of c = Durable"
      by simp
    then show ?thesis by simp
  next
    case res
    with chat_resolve_inputs [of c env w ctx prompt mk] \<open>chat_resolve env w ctx prompt mk = (r, c2)\<close>
    show ?thesis by auto
  next
    case save
    then have "provider_of c = Durable"
      by (rule saveMemory_calls)
    then show ?thesis by simp
  qed
qed

theorem chat_adapter_inputs_witness:
  "HfApiPost (Str ''https://hf.example/models/m'') (''user: hi'' @ nl @ ''assistant: hello'' @ nl @ ''user: again'')
     \<in> set (snd (snd (handler env_all world_api store_hist 7 ''/ai chat again'')))
   \<and> (\<exists>u. HfApiPost (Str ''https://hf.example/models/m'')
               (''user: hi'' @ nl @ ''assistant: hello'' @ nl @ ''user: again'') =
            HfApiPost u (''user: hi'' @ nl @ ''assistant: hello'' @ nl @ ''user: again''))
   \<and> ReplicatePost (Str ''meta/llama-2'') (JObj [(''prompt'', JStr ''again'')])
     \<in> set (snd (snd (handler env_all world_replicate store_hist 7 ''/ai chat again'')))
   \<and> (\<exists>m. ReplicatePost (Str ''meta/llama-2'') (JObj [(''prompt'', JStr ''again'')]) =
            ReplicatePost m (JObj [(''prompt'', JStr ''again'')]))
   \<and> HfSpacePost ''https://space.example/api/predict''
        (''user: hi'' @ nl @ ''assistant: hello'' @ nl @ ''user: again'')
     \<in> set (snd (snd (handler env_all world_replicate store_hist 7 ''/ai chat again'')))
   \<and> (\<exists>u. HfSpacePost ''https://space.example/api/predict''
               (''user: hi'' @ nl @ ''assistant: hello'' @ nl @ ''user: again'') =
            HfSpacePost u (''user: hi'' @ nl @ ''assistant: hello'' @ nl @ ''user: again''))"
proof -
  let ?ctx = "''user: hi'' @ nl @ ''assistant: hello'' @ nl @ ''user: again''"
  let ?c = "HfApiPost (Str ''https://hf.example/models/m'') ?ctx"
  let ?r = "ReplicatePost (Str ''meta/llama-2'') (JObj [(''prompt'', JStr ''again'')])"
  let ?s = "HfSpacePost ''https://space.example/api/predict'' ?ctx"
  have a1: "request ''/ai chat again'' ''chat'' [''chat'', ''again''] ''again''"
    by code_simp
  have a2: "chat_args env_all [''chat'', ''again''] ''again'' = (''llama2'', ''again'')"
    by code_simp
  have a3: "''again'' \<noteq> []"
    by simp
  have a4: "getMemory world_api store_hist (t_get world_api) 7 = (hist1, store_hist, [])"
    by (simp add: getMemory_def cache_get_def cache_set_def store_hist_def store_local_def
          startup_def env_none_def penv_def object_proto_def proto_functions_def Let_def
          world_api_def livetime_def clone_history_def hist1_def)
  have b4: "getMemory world_replicate store_hist (t_get world_replicate) 7 = (hist1, store_hist, [])"
    by (simp add: getMemory_def cache_get_def cache_set_def store_hist_def store_local_def
          startup_def env_none_def penv_def object_proto_def proto_functions_def Let_def
          world_replicate_def livetime_def clone_history_def hist1_def)
  have a5: "contextStr (hist1 @ [\<lparr>role = User, content = JStr ''again''\<rparr>]) = Returns ?ctx"
    by code_simp
  have a6: "?c \<in> set (snd (snd (handler env_all world_api store_hist 7 ''/ai chat again'')))"
    by code_simp
  have b6: "?r \<in> set (snd (snd (handler env_all world_replicate store_hist 7 ''/ai chat again'')))"
    by code_simp
  have c6: "?s \<in> set (snd (snd (handler env_all world_replicate store_hist 7 ''/ai chat again'')))"
    by code_simp
  have p: "provider_of ?c = HfApi" "provider_of ?r = Replicate" "provider_of ?s = HfSpace"
    by simp_all
  note t1 = chat_adapter_inputs [OF a1 a2 a3 a4 a5 a6]
  note t2 = chat_adapter_inputs [OF a1 a2 a3 b4 a5 b6]
  note t3 = chat_adapter_inputs [OF a1 a2 a3 b4 a5 c6]
  have r1: "\<exists>u. ?c = HfApiPost u ?ctx"
    by (rule t1 [THEN conjunct2, THEN conjunct1, THEN mp]) (rule p(1))
  have r2: "\<exists>m. ?r = ReplicatePost m (JObj [(''prompt'', JStr ''again'')])"
    by (rule t2 [THEN conjunct2, THEN conjunct2, THEN conjunct1, THEN mp]) (rule p(2))
  have r3: "\<exists>u. ?s = HfSpacePost u ?ctx"
    by (rule t3 [THEN conjunct1, THEN mp]) (rule p(3))
  from a6 r1 b6 r2 c6 r3 show ?thesis
    by (intro conjI)
qed

section \<open>When no provider answers\<close>




















end
